theory Spec2Isabelle
  imports Main "HOL-Library.AList"
begin

section \<open>Exceptions\<close>

text \<open>
  The exceptions that \<^verbatim>\<open>translations/utils.py\<close> and \<^verbatim>\<open>translations/models.py\<close> raise
  or let through, as values. \<open>ContextException\<close> is the bare \<^verbatim>\<open>Exception\<close> raised with
  the message "`context` is neither a model instance or a queryset or a list";
  \<open>NotTranslatableException\<close> is the one raised by \<^verbatim>\<open>get_translatable_fields\<close>.
  \<open>IndexError\<close> and \<open>AttributeError\<close> are the interpreter's own (\<^verbatim>\<open>context[0]\<close> on an
  empty list, an attribute read on \<^verbatim>\<open>None\<close>), \<open>IntegrityError\<close> is the store's answer to
  a violated \<^verbatim>\<open>unique_together\<close>.
\<close>

datatype error =
    ValidationError
  | FieldDoesNotExist
  | AttributeError
  | IndexError
  | ValueError
  | ContextException
  | NotTranslatableException
  | IntegrityError

section \<open>Strings: the lookup separator\<close>

definition LOOKUP_SEP :: string where
  "LOOKUP_SEP = ''__''"

text \<open>
  \<^verbatim>\<open>relation.split(LOOKUP_SEP)\<close>: Python scans from the left and cuts at every
  occurrence of the separator that does not overlap an earlier one; the result is
  never empty. A character that starts no separator goes to the front of the first
  part of what follows.
\<close>

fun split_sep :: "string \<Rightarrow> string list" where
  "split_sep [] = [[]]"
| "split_sep [c] = [[c]]"
| "split_sep (c # d # cs) =
     (if c = CHR ''_'' \<and> d = CHR ''_'' then [] # split_sep cs
      else (case split_sep (d # cs) of
              [] \<Rightarrow> [[c]]
            | s # ss \<Rightarrow> (c # s) # ss))"

text \<open>\<^verbatim>\<open>LOOKUP_SEP.join(parts)\<close>.\<close>

fun join_sep :: "string list \<Rightarrow> string" where
  "join_sep [] = []"
| "join_sep [s] = s"
| "join_sep (s # t # ss) = s @ LOOKUP_SEP @ join_sep (t # ss)"

section \<open>The settings and the registry of model classes\<close>

text \<open>
  A model class is named by its class name. The content type of a model
  (\<^verbatim>\<open>ContentType.objects.get_for_model(model)\<close>) is in one-to-one correspondence with
  the class, so the class name stands for the content type and for its id as well.
\<close>

type_synonym model = string

text \<open>
  What the code reads of a field object returned by \<^verbatim>\<open>model._meta.get_field\<close>: its
  \<^verbatim>\<open>name\<close>, the classes it is an instance of (for the automatic choice of translatable
  fields), whether it has \<^verbatim>\<open>choices\<close>, and, for a relation, \<^verbatim>\<open>remote_field.name\<close> and
  \<^verbatim>\<open>related_model\<close>. A field that is no relation has \<^verbatim>\<open>remote_field = None\<close>.
\<close>

datatype field_class = CharField | TextField | EmailField | OtherField

record field =
  field_name :: string
  field_class :: field_class
  field_choices :: bool
  remote_field :: "string option"
  related_model :: "model option"

text \<open>
  What the code reads of a model class: \<^verbatim>\<open>_meta.get_fields()\<close>, whether the class
  inherits \<^verbatim>\<open>Translatable\<close>, and \<^verbatim>\<open>TranslatableMeta.fields\<close> (\<^verbatim>\<open>None\<close> or a list of
  field names).
\<close>

record model_meta =
  meta_fields :: "field list"
  is_translatable :: bool
  translatable_meta_fields :: "string list option"

section \<open>Values and model instances\<close>

text \<open>
  The Python values the three operations can meet as a context or as the value of an
  attribute: \<^verbatim>\<open>None\<close>, a text, a model instance, a list of instances, a queryset
  (its model and the instances it yields, in order) and a related manager (whose
  \<^verbatim>\<open>all()\<close> is a queryset over the instances it holds). Scalar values other than text
  are not modelled. An instance has its class, the text form of its primary key
  (\<^verbatim>\<open>str(obj.id)\<close>) and its other attributes by name. Objects reached through an
  attribute are held in the instance, so that a mutation of a related object is a
  change of the enclosing value; this is the object graph with its relations loaded
  and no object reachable twice.
\<close>

datatype model_instance =
    Instance (inst_model: model) (inst_id: string) (inst_attrs: "(string \<times> pyval) list")
and pyval =
    PNone
  | PStr string
  | PObj model_instance
  | PList "model_instance list"
  | PQuerySet model "model_instance list"
  | PManager model "model_instance list"

text \<open>\<^verbatim>\<open>getattr(obj, name, None)\<close>, \<^verbatim>\<open>hasattr(obj, name)\<close> and \<^verbatim>\<open>setattr(obj, name, text)\<close>.\<close>

definition getattr :: "model_instance \<Rightarrow> string \<Rightarrow> pyval" where
  "getattr obj name =
     (if name = ''id'' then PStr (inst_id obj)
      else (case map_of (inst_attrs obj) name of None \<Rightarrow> PNone | Some v \<Rightarrow> v))"

definition hasattr :: "model_instance \<Rightarrow> string \<Rightarrow> bool" where
  "hasattr obj name \<longleftrightarrow> name = ''id'' \<or> name \<in> fst ` set (inst_attrs obj)"

definition setattr :: "model_instance \<Rightarrow> string \<Rightarrow> string \<Rightarrow> model_instance" where
  "setattr obj name s =
     (if name = ''id'' then Instance (inst_model obj) s (inst_attrs obj)
      else Instance (inst_model obj) (inst_id obj) (AList.update name (PStr s) (inst_attrs obj)))"

text \<open>
  The related value read from an attribute is the object itself, so what the nested
  call did to it is seen through the attribute afterwards.
\<close>

definition put_related :: "model_instance \<Rightarrow> string \<Rightarrow> pyval \<Rightarrow> model_instance" where
  "put_related obj name v =
     (if name = ''id'' then obj
      else Instance (inst_model obj) (inst_id obj) (AList.update name v (inst_attrs obj)))"

text \<open>Truth value of a Python value, as \<^verbatim>\<open>if field_value:\<close> tests it.\<close>

fun truthy :: "pyval \<Rightarrow> bool" where
  "truthy PNone = False"
| "truthy (PStr s) = (s \<noteq> [])"
| "truthy (PObj obj) = True"
| "truthy (PList objs) = (objs \<noteq> [])"
| "truthy (PQuerySet m objs) = (objs \<noteq> [])"
| "truthy (PManager m objs) = True"

section \<open>The translation table and the collaborators\<close>

text \<open>A row of the \<^verbatim>\<open>Translation\<close> model (\<^verbatim>\<open>models.py\<close>).\<close>

record translation =
  tr_content_type :: model
  tr_object_id :: string
  tr_field :: string
  tr_language :: string
  tr_text :: string

text \<open>The value a filter keyword is compared with: a single id, or the ids of \<^verbatim>\<open>id__in\<close>.\<close>

datatype context_value = IdEq string | IdIn "string list"

text \<open>A \<^verbatim>\<open>Q\<close> object with one keyword: the lookup and its value.\<close>

type_synonym q = "string \<times> context_value"

text \<open>
  The collaborators of the code that live outside it:
  \<^item> \<open>LANGUAGES\<close>: the language codes of \<^verbatim>\<open>settings.LANGUAGES\<close>;
  \<^item> \<open>get_language\<close>: the active language, \<^verbatim>\<open>django.utils.translation.get_language()\<close>;
  \<^item> \<open>meta\<close>: the registry of model classes;
  \<^item> \<open>q_holds\<close>: the store's evaluation of one \<^verbatim>\<open>Q\<close> object on a row of the
    translation table (the join along the lookup is the store's work);
  \<^item> \<open>py_str\<close>: \<^verbatim>\<open>str(value)\<close> for a value that is no text, which is what a text column
    keeps of it.
\<close>

record env =
  LANGUAGES :: "string list"
  get_language :: "string option"
  meta :: "model \<Rightarrow> model_meta"
  q_holds :: "q \<Rightarrow> translation \<Rightarrow> bool"
  py_str :: "pyval \<Rightarrow> string"

section \<open>\<^verbatim>\<open>get_validated_language\<close>\<close>

text \<open>
  Modelled from the spec: \<^verbatim>\<open>translations.validators.validate_language\<close> is not among
  the sources. It fails with \<open>ValidationError\<close> (the spec's InvalidLanguage) if the tag
  is not a member of the supported languages.
\<close>

definition validate_language :: "env \<Rightarrow> string \<Rightarrow> error + unit" where
  "validate_language env lang =
     (if lang \<in> set (LANGUAGES env) then Inr () else Inl ValidationError)"

text \<open>
  \<^verbatim>\<open>lang = lang if lang else get_language()\<close>: \<^verbatim>\<open>None\<close> and the empty text are both
  false. With no active language the tag is \<^verbatim>\<open>None\<close>, which is no member of the
  supported languages.
\<close>

definition get_validated_language :: "env \<Rightarrow> string option \<Rightarrow> error + string" where
  "get_validated_language env lang =
     (case (if lang \<noteq> None \<and> lang \<noteq> Some [] then lang else get_language env) of
        None \<Rightarrow> Inl ValidationError
      | Some l \<Rightarrow> (case validate_language env l of Inl e \<Rightarrow> Inl e | Inr _ \<Rightarrow> Inr l))"

section \<open>\<^verbatim>\<open>get_related_query_name\<close>\<close>

text \<open>\<^verbatim>\<open>model._meta.get_field(name)\<close> raises \<open>FieldDoesNotExist\<close> for an unknown name.\<close>

definition get_field :: "env \<Rightarrow> model \<Rightarrow> string \<Rightarrow> error + field" where
  "get_field env model name =
     (case find (\<lambda>f. field_name f = name) (meta_fields (meta env model)) of
        None \<Rightarrow> Inl FieldDoesNotExist
      | Some f \<Rightarrow> Inr f)"

lemma join_split_sep: "join_sep (split_sep s) = s"
proof (induction s rule: split_sep.induct)
  case (3 c d cs)
  show ?case
  proof (cases "c = CHR ''_'' \<and> d = CHR ''_''")
    case True
    with 3 show ?thesis
      by (cases "split_sep cs") (auto simp: LOOKUP_SEP_def)
  next
    case False
    with 3 show ?thesis
      by (cases "split_sep (d # cs)"; cases "tl (split_sep (d # cs))") auto
  qed
qed simp_all

lemma split_sep_not_Nil: "split_sep s \<noteq> []"
  by (induction s rule: split_sep.induct) (auto split: list.splits)

lemma length_join_tl_split:
  assumes "tl (split_sep s) \<noteq> []"
  shows "length (join_sep (tl (split_sep s))) < length s"
proof -
  obtain h t u where st: "split_sep s = h # t # u"
    using assms by (cases "split_sep s"; cases "tl (split_sep s)") auto
  have "length (join_sep (split_sep s)) = length s"
    by (simp add: join_split_sep)
  then show ?thesis
    by (simp add: st LOOKUP_SEP_def)
qed

function get_related_query_name :: "env \<Rightarrow> model \<Rightarrow> string \<Rightarrow> error + string" where
  "get_related_query_name env model relation =
     (let parts = split_sep relation;
          root = hd parts;
          branch = tl parts
      in case get_field env model root of
           Inl e \<Rightarrow> Inl e
         | Inr field \<Rightarrow>
             (case remote_field field of
                None \<Rightarrow> Inl AttributeError
              | Some related_query_name \<Rightarrow>
                  if branch \<noteq> [] then
                    (case related_model field of
                       None \<Rightarrow> Inl AttributeError
                     | Some branch_model \<Rightarrow>
                         (case get_related_query_name env branch_model (join_sep branch) of
                            Inl e \<Rightarrow> Inl e
                          | Inr branch_related_query_name \<Rightarrow>
                              Inr (branch_related_query_name @ ''__'' @ related_query_name)))
                  else Inr related_query_name))"
  by pat_completeness auto
termination
  by (relation "measure (\<lambda>(env, model, relation). length relation)")
     (auto simp: length_join_tl_split)

section \<open>\<^verbatim>\<open>get_translations\<close>\<close>

text \<open>
  "Process context" as \<^verbatim>\<open>get_translations\<close> does it: the model, the filter string and
  the value compared. \<^verbatim>\<open>type(context[0])\<close> raises \<open>IndexError\<close> on the empty list.
\<close>

definition process_context_fetch :: "pyval \<Rightarrow> error + (model \<times> string \<times> context_value)" where
  "process_context_fetch context =
     (case context of
        PQuerySet model objs \<Rightarrow> Inr (model, ''id__in'', IdIn (map inst_id objs))
      | PList objs \<Rightarrow>
          (case objs of
             [] \<Rightarrow> Inl IndexError
           | obj # _ \<Rightarrow> Inr (inst_model obj, ''id__in'', IdIn (map inst_id objs)))
      | PObj obj \<Rightarrow> Inr (inst_model obj, ''id'', IdEq (inst_id obj))
      | _ \<Rightarrow> Inl ContextException)"

text \<open>The loop "query the translations for context relations".\<close>

fun relation_queries :: "env \<Rightarrow> model \<Rightarrow> string \<Rightarrow> context_value \<Rightarrow> string list \<Rightarrow> error + q list" where
  "relation_queries env model filter_string context_value [] = Inr []"
| "relation_queries env model filter_string context_value (relation # relations) =
     (case get_related_query_name env model (relation @ ''__'' @ ''translations'') of
        Inl e \<Rightarrow> Inl e
      | Inr related_query_name \<Rightarrow>
          (case relation_queries env model filter_string context_value relations of
             Inl e \<Rightarrow> Inl e
           | Inr queries \<Rightarrow>
               Inr ((related_query_name @ ''__'' @ filter_string, context_value) # queries)))"

text \<open>
  \<^verbatim>\<open>translations.models.Translatable.objects.none()\<close>: \<^verbatim>\<open>Translatable\<close> is an abstract
  model (\<^verbatim>\<open>class Meta: abstract = True\<close> in \<^verbatim>\<open>models.py\<close>), and Django's manager
  descriptor raises \<open>AttributeError\<close> ("Manager isn't available; Translatable is
  abstract") when a manager is read from an abstract model class. The queryset built
  two lines above is one of \<^verbatim>\<open>Translation\<close>, the concrete model.
\<close>

definition Translatable_objects_none :: "error + translation list" where
  "Translatable_objects_none = Inl AttributeError"

text \<open>
  The table is the content of the \<^verbatim>\<open>Translation\<close> table when the queryset is
  evaluated. The filter is the disjunction of the \<^verbatim>\<open>Q\<close> objects; a row of the table is
  in the result at most once (\<^verbatim>\<open>distinct()\<close>).
\<close>

definition get_translations ::
  "env \<Rightarrow> translation list \<Rightarrow> pyval \<Rightarrow> string list \<Rightarrow> string option \<Rightarrow> error + translation list" where
  "get_translations env table context relations lang =
     (case get_validated_language env lang of
        Inl e \<Rightarrow> Inl e
      | Inr lang \<Rightarrow>
     (case process_context_fetch context of
        Inl e \<Rightarrow> Inl e
      | Inr (model, filter_string, context_value) \<Rightarrow>
     (case (if is_translatable (meta env model) then
              (case get_related_query_name env model ''translations'' of
                 Inl e \<Rightarrow> Inl e
               | Inr related_query_name \<Rightarrow>
                   Inr [(related_query_name @ ''__'' @ filter_string, context_value)])
            else Inr []) of
        Inl e \<Rightarrow> Inl e
      | Inr own \<Rightarrow>
     (case relation_queries env model filter_string context_value relations of
        Inl e \<Rightarrow> Inl e
      | Inr related \<Rightarrow>
          (let queries = own @ related
           in if length queries > 0 then
                Inr (filter (\<lambda>t. tr_language t = lang \<and> (\<exists>query \<in> set queries. q_holds env query t)) table)
              else Translatable_objects_none)))))"

section \<open>\<^verbatim>\<open>get_relations_hierarchy\<close>\<close>

text \<open>
  The dictionary keeps its keys in the order of their first insertion: an association
  list with one entry per key. \<^verbatim>\<open>hierarchy.setdefault(root, [])\<close> and
  \<^verbatim>\<open>hierarchy[root].append(nest)\<close>:
\<close>

definition setdefault :: "string \<Rightarrow> 'v \<Rightarrow> (string \<times> 'v) list \<Rightarrow> (string \<times> 'v) list" where
  "setdefault k v d = (if k \<in> fst ` set d then d else d @ [(k, v)])"

definition append_at :: "string \<Rightarrow> 'v \<Rightarrow> (string \<times> 'v list) list \<Rightarrow> (string \<times> 'v list) list" where
  "append_at k x d = AList.map_entry k (\<lambda>l. l @ [x]) d"

text \<open>The body of the loop, for one relation.\<close>

definition hierarchy_step ::
  "(string \<times> string list) list \<Rightarrow> string \<Rightarrow> error + (string \<times> string list) list" where
  "hierarchy_step hierarchy relation =
     (let parts = split_sep relation
      in if [] \<in> set parts then Inl ValueError
         else (let root = hd parts;
                   nest = join_sep (tl parts);
                   hierarchy = setdefault root [] hierarchy
               in Inr (if nest \<noteq> [] then append_at root nest hierarchy else hierarchy)))"

fun hierarchy_loop ::
  "(string \<times> string list) list \<Rightarrow> string list \<Rightarrow> error + (string \<times> string list) list" where
  "hierarchy_loop hierarchy [] = Inr hierarchy"
| "hierarchy_loop hierarchy (relation # relations) =
     (case hierarchy_step hierarchy relation of
        Inl e \<Rightarrow> Inl e
      | Inr hierarchy \<Rightarrow> hierarchy_loop hierarchy relations)"

definition get_relations_hierarchy :: "string list \<Rightarrow> error + (string \<times> string list) list" where
  "get_relations_hierarchy relations = hierarchy_loop [] relations"

section \<open>\<^verbatim>\<open>Translatable.get_translatable_fields\<close>\<close>

text \<open>The comprehension over \<^verbatim>\<open>TranslatableMeta.fields\<close>; \<^verbatim>\<open>get_field\<close> may raise in it.\<close>

fun get_fields_by_name :: "env \<Rightarrow> model \<Rightarrow> string list \<Rightarrow> error + field list" where
  "get_fields_by_name env cls [] = Inr []"
| "get_fields_by_name env cls (name # names) =
     (case get_field env cls name of
        Inl e \<Rightarrow> Inl e
      | Inr f \<Rightarrow>
          (case get_fields_by_name env cls names of
             Inl e \<Rightarrow> Inl e
           | Inr fs \<Rightarrow> Inr (f # fs)))"

text \<open>
  \<^verbatim>\<open>EmailField\<close> is a subclass of \<^verbatim>\<open>CharField\<close>, so it passes the first \<^verbatim>\<open>isinstance\<close>
  and is excluded by the second. A class has \<^verbatim>\<open>TranslatableMeta\<close> when it inherits
  \<^verbatim>\<open>Translatable\<close>.
\<close>

definition get_translatable_fields :: "env \<Rightarrow> model \<Rightarrow> error + field list" where
  "get_translatable_fields env cls =
     (if is_translatable (meta env cls) then
        (case translatable_meta_fields (meta env cls) of
           None \<Rightarrow>
             Inr (filter
                   (\<lambda>field.
                      (field_class field = CharField \<or> field_class field = TextField
                         \<or> field_class field = EmailField)
                      \<and> field_class field \<noteq> EmailField
                      \<and> \<not> field_choices field)
                   (meta_fields (meta env cls)))
         | Some names \<Rightarrow> get_fields_by_name env cls names)
      else Inl NotTranslatableException)"

section \<open>\<^verbatim>\<open>translate\<close>\<close>

text \<open>
  The \<^verbatim>\<open>translations_queryset\<close> argument: \<^verbatim>\<open>None\<close>, a queryset of translations, or the
  dictionary from content type and object id to the list of translations.
\<close>

type_synonym translations_dict = "model \<Rightarrow> (string \<Rightarrow> translation list option) option"

datatype translations_queryset =
    TQNone
  | TQSet "translation list"
  | TQDict translations_dict

text \<open>"Convert translations queryset to dict for faster access": one step of the loop.\<close>

definition dict_add :: "translations_dict \<Rightarrow> translation \<Rightarrow> translations_dict" where
  "dict_add d obj =
     (let by_id = (case d (tr_content_type obj) of None \<Rightarrow> Map.empty | Some m \<Rightarrow> m);
          l = (case by_id (tr_object_id obj) of None \<Rightarrow> [] | Some l \<Rightarrow> l)
      in d(tr_content_type obj \<mapsto> by_id(tr_object_id obj \<mapsto> l @ [obj])))"

definition to_dict :: "translation list \<Rightarrow> translations_dict" where
  "to_dict rows = foldl dict_add Map.empty rows"

text \<open>
  "Generate translations queryset if none passed" and "convert translations queryset
  to dict for faster access": the dictionary the call works with.
\<close>

definition translations_dict_of ::
  "env \<Rightarrow> translation list \<Rightarrow> pyval \<Rightarrow> string list \<Rightarrow> string \<Rightarrow> translations_queryset
     \<Rightarrow> error + translations_dict" where
  "translations_dict_of env table context relations lang translations_queryset =
     (case translations_queryset of
        TQNone \<Rightarrow>
          (case get_translations env table context relations (Some lang) of
             Inl e \<Rightarrow> Inl e
           | Inr rows \<Rightarrow> Inr (to_dict rows))
      | TQSet rows \<Rightarrow> Inr (to_dict rows)
      | TQDict d \<Rightarrow> Inr d)"

text \<open>
  A Python function that mutates an object and may raise returns the exception, if
  any, and the object as it is then. A loop over objects stops at the first exception;
  the objects before it stay mutated.
\<close>

fun for_all ::
  "(model_instance \<Rightarrow> error option \<times> model_instance) \<Rightarrow> model_instance list
     \<Rightarrow> error option \<times> model_instance list" where
  "for_all f [] = (None, [])"
| "for_all f (obj # objs) =
     (case f obj of
        (Some e, obj') \<Rightarrow> (Some e, obj' # objs)
      | (None, obj') \<Rightarrow> (case for_all f objs of (r, objs') \<Rightarrow> (r, obj' # objs')))"

text \<open>
  "Translate based on plural/singular": \<^verbatim>\<open>for obj in context: f(obj)\<close> for a queryset
  or a list, \<^verbatim>\<open>f(context)\<close> for an instance.
\<close>

fun for_context ::
  "(model_instance \<Rightarrow> error option \<times> model_instance) \<Rightarrow> pyval \<Rightarrow> error option \<times> pyval" where
  "for_context f (PQuerySet model objs) =
     (case for_all f objs of (r, objs') \<Rightarrow> (r, PQuerySet model objs'))"
| "for_context f (PList objs) = (case for_all f objs of (r, objs') \<Rightarrow> (r, PList objs'))"
| "for_context f (PObj obj) = (case f obj of (r, obj') \<Rightarrow> (r, PObj obj'))"
| "for_context f context = (None, context)"

text \<open>"Process context" as \<^verbatim>\<open>translate\<close> does it: the model and \<^verbatim>\<open>is_plural\<close>.\<close>

definition process_context_translate :: "pyval \<Rightarrow> error + (model \<times> bool)" where
  "process_context_translate context =
     (case context of
        PQuerySet model objs \<Rightarrow> Inr (model, True)
      | PList objs \<Rightarrow> (case objs of [] \<Rightarrow> Inl IndexError | obj # _ \<Rightarrow> Inr (inst_model obj, True))
      | PObj obj \<Rightarrow> Inr (inst_model obj, False)
      | _ \<Rightarrow> Inl ContextException)"

text \<open>The loop of \<^verbatim>\<open>translate_obj\<close> over the translations found for the object.\<close>

fun apply_translations ::
  "env \<Rightarrow> model \<Rightarrow> field list \<Rightarrow> translation list \<Rightarrow> model_instance
     \<Rightarrow> error option \<times> model_instance" where
  "apply_translations env model translatable_fields [] obj = (None, obj)"
| "apply_translations env model translatable_fields (obj_translation # obj_translations) obj =
     (case get_field env model (tr_field obj_translation) of
        Inl e \<Rightarrow> (Some e, obj)
      | Inr field \<Rightarrow>
          apply_translations env model translatable_fields obj_translations
            (if field \<in> set translatable_fields
                \<and> hasattr obj (tr_field obj_translation)
                \<and> tr_text obj_translation \<noteq> []
             then setattr obj (tr_field obj_translation) (tr_text obj_translation)
             else obj))"

text \<open>
  \<^verbatim>\<open>translations_queryset[content_type.id][str(obj.id)]\<close>, where \<open>None\<close> is the
  \<open>KeyError\<close> of either lookup. \<^verbatim>\<open>translate_obj\<close> catches it and passes; an exception
  of the \<^verbatim>\<open>else\<close> part is not caught.
\<close>

definition dict_lookup :: "translations_dict \<Rightarrow> model \<Rightarrow> string \<Rightarrow> translation list option" where
  "dict_lookup translations_queryset content_type object_id =
     (case translations_queryset content_type of
        None \<Rightarrow> None
      | Some by_id \<Rightarrow> by_id object_id)"

definition translate_obj ::
  "env \<Rightarrow> model \<Rightarrow> field list \<Rightarrow> translations_dict \<Rightarrow> model_instance
     \<Rightarrow> error option \<times> model_instance" where
  "translate_obj env model translatable_fields translations_queryset obj =
     (case dict_lookup translations_queryset model (inst_id obj) of
        None \<Rightarrow> (None, obj)
      | Some obj_translations \<Rightarrow>
          apply_translations env model translatable_fields obj_translations obj)"

text \<open>"Translate context itself".\<close>

definition translate_context_itself ::
  "env \<Rightarrow> model \<Rightarrow> translations_dict \<Rightarrow> pyval \<Rightarrow> error option \<times> pyval" where
  "translate_context_itself env model translations_queryset context =
     (if is_translatable (meta env model) then
        (case get_translatable_fields env model of
           Inl e \<Rightarrow> (Some e, context)
         | Inr translatable_fields \<Rightarrow>
             for_context (translate_obj env model translatable_fields translations_queryset) context)
      else (None, context))"

text \<open>\<^verbatim>\<open>relation_value.all()\<close> of a manager, and the manager after its objects were mutated.\<close>

fun manager_all :: "pyval \<Rightarrow> pyval" where
  "manager_all (PManager model objs) = PQuerySet model objs"
| "manager_all relation_value = relation_value"

fun manager_back :: "pyval \<Rightarrow> pyval \<Rightarrow> pyval" where
  "manager_back (PManager model objs) (PQuerySet model' objs') = PManager model objs'"
| "manager_back relation_value relation_value' = relation_value'"

text \<open>
  The weight of a list of relations and of a hierarchy: what decreases from a call of
  \<^verbatim>\<open>translate\<close> to the nested calls.
\<close>

definition relations_weight :: "string list \<Rightarrow> nat" where
  "relations_weight relations = sum_list (map length relations)"

definition hierarchy_weight :: "(string \<times> string list) list \<Rightarrow> nat" where
  "hierarchy_weight hierarchy = sum_list (map (\<lambda>(k, ds). Suc (relations_weight ds)) hierarchy)"

lemma hierarchy_weight_append [simp]:
  "hierarchy_weight (xs @ ys) = hierarchy_weight xs + hierarchy_weight ys"
  by (simp add: hierarchy_weight_def)

lemma hierarchy_weight_setdefault:
  "hierarchy_weight (setdefault k [] d) \<le> Suc (hierarchy_weight d)"
  by (simp add: setdefault_def) (simp add: hierarchy_weight_def relations_weight_def)

lemma hierarchy_weight_append_at:
  "hierarchy_weight (append_at k x d) \<le> hierarchy_weight d + length x"
  unfolding append_at_def
  by (induction d) (auto simp: hierarchy_weight_def relations_weight_def)

lemma length_split_parts:
  assumes "[] \<notin> set (split_sep r)"
  shows "1 \<le> length r"
    and "join_sep (tl (split_sep r)) \<noteq> [] \<Longrightarrow> Suc (length (join_sep (tl (split_sep r)))) \<le> length r"
proof -
  obtain root rest where parts: "split_sep r = root # rest"
    using split_sep_not_Nil [of r] by (cases "split_sep r") auto
  have root: "root \<noteq> []"
    using assms parts by auto
  have len: "length (join_sep (root # rest)) = length r"
    using join_split_sep [of r] parts by simp
  show "1 \<le> length r"
    using len root by (cases rest; cases root) auto
  show "Suc (length (join_sep (tl (split_sep r)))) \<le> length r"
    if "join_sep (tl (split_sep r)) \<noteq> []"
    using len root that parts by (cases rest) (auto simp: LOOKUP_SEP_def)
qed

lemma hierarchy_step_weight:
  assumes "hierarchy_step h r = Inr h'"
  shows "hierarchy_weight h' \<le> hierarchy_weight h + length r"
proof -
  from assms have ok: "[] \<notin> set (split_sep r)"
    by (auto simp: hierarchy_step_def Let_def split: if_splits)
  let ?root = "hd (split_sep r)"
  let ?nest = "join_sep (tl (split_sep r))"
  let ?h1 = "setdefault ?root [] h"
  show ?thesis
  proof (cases "?nest = []")
    case True
    with assms ok have "h' = ?h1"
      by (simp add: hierarchy_step_def Let_def)
    then show ?thesis
      using hierarchy_weight_setdefault [of ?root h] length_split_parts(1) [OF ok] by simp
  next
    case False
    with assms ok have "h' = append_at ?root ?nest ?h1"
      by (simp add: hierarchy_step_def Let_def)
    then show ?thesis
      using hierarchy_weight_setdefault [of ?root h] length_split_parts(2) [OF ok False]
        hierarchy_weight_append_at [of ?root ?nest ?h1]
      by simp
  qed
qed

lemma hierarchy_loop_weight:
  "hierarchy_loop h rs = Inr h' \<Longrightarrow> hierarchy_weight h' \<le> hierarchy_weight h + relations_weight rs"
proof (induction rs arbitrary: h)
  case Nil
  then show ?case by simp
next
  case (Cons r rs)
  then obtain h1 where step: "hierarchy_step h r = Inr h1" and rest: "hierarchy_loop h1 rs = Inr h'"
    by (auto split: sum.splits)
  from Cons.IH [OF rest] hierarchy_step_weight [OF step] show ?case
    by (simp add: relations_weight_def)
qed

lemma get_relations_hierarchy_weight:
  "get_relations_hierarchy relations = Inr h \<Longrightarrow> hierarchy_weight h \<le> relations_weight relations"
  using hierarchy_loop_weight [of "[]" relations h]
  by (simp add: get_relations_hierarchy_def hierarchy_weight_def)

text \<open>
  \<^verbatim>\<open>translate\<close> and its inner function \<^verbatim>\<open>translate_rel\<close>, which runs over the items of
  \<^verbatim>\<open>relations_dict\<close> for one object. The value returned is the context as the call leaves
  it, with the exception raised, if any. The table is read only when no
  \<^verbatim>\<open>translations_queryset\<close> is passed.
\<close>

function translate ::
  "env \<Rightarrow> translation list \<Rightarrow> pyval \<Rightarrow> string list \<Rightarrow> string option \<Rightarrow> translations_queryset
     \<Rightarrow> error option \<times> pyval"
and translate_rel ::
  "env \<Rightarrow> translation list \<Rightarrow> (string \<times> string list) list \<Rightarrow> string \<Rightarrow> translations_dict
     \<Rightarrow> model_instance \<Rightarrow> error option \<times> model_instance"
where
  "translate env table context relations lang translations_queryset =
     (case get_validated_language env lang of
        Inl e \<Rightarrow> (Some e, context)
      | Inr lang \<Rightarrow>
     (case process_context_translate context of
        Inl e \<Rightarrow> (Some e, context)
      | Inr (model, is_plural) \<Rightarrow>
     (case translations_dict_of env table context relations lang translations_queryset of
        Inl e \<Rightarrow> (Some e, context)
      | Inr translations_queryset \<Rightarrow>
     (case translate_context_itself env model translations_queryset context of
        (Some e, context) \<Rightarrow> (Some e, context)
      | (None, context) \<Rightarrow>
     (case get_relations_hierarchy relations of
        Inl e \<Rightarrow> (Some e, context)
      | Inr relations_dict \<Rightarrow>
          if length relations_dict > 0 then
            for_context
              (\<lambda>obj. translate_rel env table relations_dict lang translations_queryset obj)
              context
          else (None, context))))))"
| "translate_rel env table [] lang translations_queryset obj = (None, obj)"
| "translate_rel env table ((relation_key, relation_descendants) # items) lang
       translations_queryset obj =
     (let relation_value = getattr obj relation_key
      in if relation_value \<noteq> PNone then
           (case translate env table (manager_all relation_value) relation_descendants
                   (Some lang) (TQDict translations_queryset) of
              (r, relation_value') \<Rightarrow>
                (let obj = put_related obj relation_key (manager_back relation_value relation_value')
                 in case r of
                      Some e \<Rightarrow> (Some e, obj)
                    | None \<Rightarrow> translate_rel env table items lang translations_queryset obj))
         else translate_rel env table items lang translations_queryset obj)"
  by pat_completeness auto
termination
  by (relation "measure (\<lambda>x. case x of
          Inl (env, table, context, relations, lang, tq) \<Rightarrow> Suc (2 * relations_weight relations)
        | Inr (env, table, items, lang, d, obj) \<Rightarrow> 2 * hierarchy_weight items)")
     (auto simp: hierarchy_weight_def dest!: get_relations_hierarchy_weight)

declare translate.simps [simp del]

declare get_related_query_name.simps [simp del]

section \<open>An example registry and store\<close>

text \<open>
  The models of the docstring of \<^verbatim>\<open>get_related_query_name\<close>: a continent has
  countries, a country has states, a state has cities. Each of them is translatable,
  with a text field \<^verbatim>\<open>name\<close>; \<^verbatim>\<open>Timezone\<close> is a model that is not translatable. A
  reverse relation knows the name of the foreign key it comes from and the model it
  leads to; the generic relation \<^verbatim>\<open>translations\<close> has the related query name
  \<^verbatim>\<open>%(app_label)s_%(class)s\<close>.
\<close>

definition text_field :: "string \<Rightarrow> field" where
  "text_field name =
     \<lparr>field_name = name, field_class = CharField, field_choices = False,
      remote_field = None, related_model = None\<rparr>"

definition relation_field :: "string \<Rightarrow> string \<Rightarrow> model \<Rightarrow> field" where
  "relation_field name remote_name related =
     \<lparr>field_name = name, field_class = OtherField, field_choices = False,
      remote_field = Some remote_name, related_model = Some related\<rparr>"

definition example_meta :: "model \<Rightarrow> model_meta" where
  "example_meta m =
     (if m = ''Continent'' then
        \<lparr>meta_fields =
           [text_field ''name'', text_field ''denonym'',
            relation_field ''countries'' ''continent'' ''Country'',
            relation_field ''translations'' ''sample_continent'' ''Translation''],
         is_translatable = True, translatable_meta_fields = None\<rparr>
      else if m = ''Country'' then
        \<lparr>meta_fields =
           [text_field ''name'',
            relation_field ''states'' ''country'' ''State'',
            relation_field ''translations'' ''sample_country'' ''Translation''],
         is_translatable = True, translatable_meta_fields = Some [''name'']\<rparr>
      else if m = ''State'' then
        \<lparr>meta_fields =
           [text_field ''name'',
            relation_field ''cities'' ''state'' ''City'',
            relation_field ''translations'' ''sample_state'' ''Translation''],
         is_translatable = True, translatable_meta_fields = None\<rparr>
      else if m = ''City'' then
        \<lparr>meta_fields =
           [text_field ''name'',
            relation_field ''translations'' ''sample_city'' ''Translation''],
         is_translatable = True, translatable_meta_fields = None\<rparr>
      else if m = ''Timezone'' then
        \<lparr>meta_fields = [text_field ''name''],
         is_translatable = False, translatable_meta_fields = None\<rparr>
      else \<lparr>meta_fields = [], is_translatable = False, translatable_meta_fields = None\<rparr>)"

definition example_generic_name :: "model \<Rightarrow> string" where
  "example_generic_name m =
     (if m = ''Continent'' then ''sample_continent''
      else if m = ''Country'' then ''sample_country''
      else if m = ''State'' then ''sample_state''
      else if m = ''City'' then ''sample_city''
      else '''')"

text \<open>
  The example store resolves the lookups through the generic relation of the owning
  model: the row belongs to the object of that model whose id is the row's object id.
\<close>

definition example_q_holds :: "q \<Rightarrow> translation \<Rightarrow> bool" where
  "example_q_holds query t =
     (case snd query of
        IdEq i \<Rightarrow>
          fst query = example_generic_name (tr_content_type t) @ ''__id'' \<and> tr_object_id t = i
      | IdIn ids \<Rightarrow>
          fst query = example_generic_name (tr_content_type t) @ ''__id__in''
            \<and> tr_object_id t \<in> set ids)"

definition example_env :: env where
  "example_env =
     \<lparr>LANGUAGES = [''en'', ''de''], get_language = Some ''en'', meta = example_meta,
      q_holds = example_q_holds, py_str = (\<lambda>v. [])\<rparr>"

definition europe :: model_instance where
  "europe = Instance ''Continent'' ''1'' [(''name'', PStr ''Europe''), (''denonym'', PStr ''European'')]"

definition utc :: model_instance where
  "utc = Instance ''Timezone'' ''7'' [(''name'', PStr ''UTC'')]"

definition europa_de :: translation where
  "europa_de =
     \<lparr>tr_content_type = ''Continent'', tr_object_id = ''1'', tr_field = ''name'',
      tr_language = ''de'', tr_text = ''Europa''\<rparr>"

definition europa :: model_instance where
  "europa = Instance ''Continent'' ''1'' [(''name'', PStr ''Europa''), (''denonym'', PStr ''European'')]"





text \<open>
  A registry in which \<^verbatim>\<open>TranslatableMeta.fields\<close> of the continent names the field
  \<^verbatim>\<open>name\<close> twice.
\<close>

definition repeated_env :: env where
  "repeated_env =
     example_env
       \<lparr>meta := (\<lambda>m. if m = ''Continent''
                      then (example_meta m)\<lparr>translatable_meta_fields := Some [''name'', ''name'']\<rparr>
                      else example_meta m)\<rparr>"


section \<open>The specification's words\<close>

text \<open>
  The reverse relation names of a path, segment by segment: each segment is looked up
  on the model the segments before it lead to, and gives the name of its reverse
  relation. The first name belongs to the first segment.
\<close>

fun reverse_names :: "env \<Rightarrow> model \<Rightarrow> string list \<Rightarrow> error + string list" where
  "reverse_names env model [] = Inr []"
| "reverse_names env model (segment # segments) =
     (case get_field env model segment of
        Inl e \<Rightarrow> Inl e
      | Inr field \<Rightarrow>
          (case remote_field field of
             None \<Rightarrow> Inl AttributeError
           | Some name \<Rightarrow>
               if segments = [] then Inr [name]
               else (case related_model field of
                       None \<Rightarrow> Inl AttributeError
                     | Some related \<Rightarrow>
                         (case reverse_names env related segments of
                            Inl e \<Rightarrow> Inl e
                          | Inr names \<Rightarrow> Inr (name # names)))))"

text \<open>The model that a chain of segments leads to, when each of them names a relation.\<close>

fun follow :: "env \<Rightarrow> model \<Rightarrow> string list \<Rightarrow> model option" where
  "follow env model [] = Some model"
| "follow env model (segment # segments) =
     (case get_field env model segment of
        Inl e \<Rightarrow> None
      | Inr field \<Rightarrow>
          (case remote_field field of
             None \<Rightarrow> None
           | Some name \<Rightarrow>
               (case related_model field of
                  None \<Rightarrow> None
                | Some related \<Rightarrow> follow env related segments)))"

text \<open>
  The hierarchy as the specification words it: the first segments in the order of
  their first occurrence, each with the remaining joined segments of the paths that
  start with it, but for the paths of one segment.
\<close>

definition first_occurrences :: "'a list \<Rightarrow> 'a list" where
  "first_occurrences xs = rev (remdups (rev xs))"

definition first_segment :: "string \<Rightarrow> string" where
  "first_segment path = hd (split_sep path)"

definition remaining_paths :: "string list \<Rightarrow> string \<Rightarrow> string list" where
  "remaining_paths paths k =
     map (\<lambda>path. join_sep (tl (split_sep path)))
       (filter (\<lambda>path. first_segment path = k \<and> tl (split_sep path) \<noteq> []) paths)"

definition hierarchy_spec :: "string list \<Rightarrow> (string \<times> string list) list" where
  "hierarchy_spec paths =
     map (\<lambda>k. (k, remaining_paths paths k)) (first_occurrences (map first_segment paths))"

text \<open>
  An attribute holds related objects when its value is an instance, a list, a queryset
  or a manager; it holds a field value when it is a text or \<^verbatim>\<open>None\<close>.
\<close>

fun related_value :: "pyval \<Rightarrow> bool" where
  "related_value PNone = False"
| "related_value (PStr s) = False"
| "related_value v = True"

text \<open>
  What makes overlay write a row into an attribute of an object: the context's model
  is translatable, the name is the name of one of its translatable fields, the object
  has the attribute, the row is among the translations found for the model and the
  object's id, it is for that field, and its text is not empty.
\<close>

definition translated_by ::
  "env \<Rightarrow> model \<Rightarrow> translations_dict \<Rightarrow> model_instance \<Rightarrow> string \<Rightarrow> translation \<Rightarrow> bool" where
  "translated_by env model d obj name row \<longleftrightarrow>
     is_translatable (meta env model)
     \<and> (case get_translatable_fields env model of
          Inl e \<Rightarrow> False
        | Inr translatable_fields \<Rightarrow>
            (case get_field env model name of
               Inl e \<Rightarrow> False
             | Inr field \<Rightarrow> field \<in> set translatable_fields))
     \<and> hasattr obj name
     \<and> (case dict_lookup d model (inst_id obj) of
          None \<Rightarrow> False
        | Some rows \<Rightarrow> row \<in> set rows)
     \<and> tr_field row = name
     \<and> tr_text row \<noteq> []"

section \<open>The generic relation in the store\<close>

text \<open>
  What the store does with a lookup through \<^verbatim>\<open>translations\<close>, the \<^verbatim>\<open>GenericRelation\<close> that
  a model inherits from \<^verbatim>\<open>Translatable\<close> (\<^verbatim>\<open>content_type_field='content_type'\<close>,
  \<^verbatim>\<open>object_id_field='object_id'\<close>): the relation has a related query name, and a row of
  \<^verbatim>\<open>Translation\<close> is joined to the object of the model whose content type and id the
  row carries. The objects asked for are taken to be in the store.
\<close>

definition generic_relation :: "env \<Rightarrow> model \<Rightarrow> bool" where
  "generic_relation env model \<longleftrightarrow>
     (\<exists>related_query_name.
        get_related_query_name env model ''translations'' = Inr related_query_name
        \<and> (\<forall>t i. q_holds env (related_query_name @ ''__'' @ ''id'', IdEq i) t
                   = (tr_content_type t = model \<and> tr_object_id t = i))
        \<and> (\<forall>t ids. q_holds env (related_query_name @ ''__'' @ ''id__in'', IdIn ids) t
                   = (tr_content_type t = model \<and> tr_object_id t \<in> set ids)))"

text \<open>The rows of the table that belong to an object, in a language.\<close>

definition owned :: "model \<Rightarrow> string \<Rightarrow> string \<Rightarrow> translation \<Rightarrow> bool" where
  "owned model object_id lang t \<longleftrightarrow>
     tr_content_type t = model \<and> tr_object_id t = object_id \<and> tr_language t = lang"

section \<open>What an overlay may change in an object graph\<close>

text \<open>
  The objects of a call and the objects reached through its relations. An object after
  the call is the object before it with some attributes written: for every name, the
  attribute reads as before, or it holds the text of a row that \<open>translated_by\<close> accepts
  for the model of the context the object is in, or it held related objects and holds
  them still, each changed in this way only. A related value keeps its kind and its
  model; a list, a queryset and a manager keep their length and the order of their
  objects. The model of a list is the class of its first object.
\<close>

inductive overlaid ::
    "env \<Rightarrow> translations_dict \<Rightarrow> model \<Rightarrow> model_instance \<Rightarrow> model_instance \<Rightarrow> bool"
  and overlaid_value :: "env \<Rightarrow> translations_dict \<Rightarrow> pyval \<Rightarrow> pyval \<Rightarrow> bool"
  for env :: env and d :: translations_dict
where
  overlaid_obj:
    "inst_model obj' = inst_model obj \<Longrightarrow>
     (\<forall>name.
        getattr obj' name = getattr obj name
        \<or> (\<exists>row. translated_by env model d obj name row \<and> getattr obj' name = PStr (tr_text row))
        \<or> (related_value (getattr obj name)
             \<and> overlaid_value env d (getattr obj name) (getattr obj' name))) \<Longrightarrow>
     overlaid env d model obj obj'"
| overlaid_same: "overlaid_value env d v v"
| overlaid_PObj:
    "overlaid env d (inst_model obj) obj obj' \<Longrightarrow> overlaid_value env d (PObj obj) (PObj obj')"
| overlaid_PList:
    "list_all2 (overlaid env d (inst_model (hd objs))) objs objs' \<Longrightarrow>
     overlaid_value env d (PList objs) (PList objs')"
| overlaid_PQuerySet:
    "list_all2 (overlaid env d model) objs objs' \<Longrightarrow>
     overlaid_value env d (PQuerySet model objs) (PQuerySet model objs')"
| overlaid_PManager:
    "list_all2 (overlaid env d model) objs objs' \<Longrightarrow>
     overlaid_value env d (PManager model objs) (PManager model objs')"




section \<open>\<^verbatim>\<open>update_translations\<close>\<close>

text \<open>
  "Process context" as \<^verbatim>\<open>update_translations\<close> does it: the empty list returns at once
  (\<open>None\<close> here), before anything else is done.
\<close>

definition process_context_update :: "pyval \<Rightarrow> error + (model \<times> bool) option" where
  "process_context_update context =
     (case context of
        PQuerySet model objs \<Rightarrow> Inr (Some (model, True))
      | PList objs \<Rightarrow>
          (case objs of [] \<Rightarrow> Inr None | obj # _ \<Rightarrow> Inr (Some (inst_model obj, True)))
      | PObj obj \<Rightarrow> Inr (Some (inst_model obj, False))
      | _ \<Rightarrow> Inl ContextException)"

text \<open>The objects of a context, as "translate based on plural/singular" visits them.\<close>

fun context_objs :: "pyval \<Rightarrow> model_instance list" where
  "context_objs (PQuerySet model objs) = objs"
| "context_objs (PList objs) = objs"
| "context_objs (PObj obj) = [obj]"
| "context_objs context = []"

text \<open>The text column keeps a text as it is, and \<^verbatim>\<open>str(value)\<close> of another value.\<close>

definition text_of :: "env \<Rightarrow> pyval \<Rightarrow> string" where
  "text_of env v = (case v of PStr s \<Rightarrow> s | _ \<Rightarrow> py_str env v)"

text \<open>
  \<^verbatim>\<open>add_translations\<close>: the rows staged for one object. \<^verbatim>\<open>content_object=obj\<close> sets the
  content type of the object's class and its id.
\<close>

definition add_translations :: "env \<Rightarrow> string \<Rightarrow> field list \<Rightarrow> model_instance \<Rightarrow> translation list" where
  "add_translations env lang translatable_fields obj =
     map (\<lambda>field.
            \<lparr>tr_content_type = inst_model obj,
             tr_object_id = inst_id obj,
             tr_field = field_name field,
             tr_language = lang,
             tr_text = text_of env (getattr obj (field_name field))\<rparr>)
         (filter (\<lambda>field. truthy (getattr obj (field_name field))) translatable_fields)"

text \<open>\<^verbatim>\<open>unique_together = ('content_type', 'object_id', 'field', 'language')\<close>.\<close>

definition unique_together :: "translation \<Rightarrow> model \<times> string \<times> string \<times> string" where
  "unique_together t = (tr_content_type t, tr_object_id t, tr_field t, tr_language t)"

text \<open>
  \<^verbatim>\<open>Translation.objects.bulk_create\<close>: the store refuses a row whose key is in the table
  already, with \<open>IntegrityError\<close>.
\<close>

fun bulk_create :: "translation list \<Rightarrow> translation list \<Rightarrow> error option \<times> translation list" where
  "bulk_create [] table = (None, table)"
| "bulk_create (t # ts) table =
     (if unique_together t \<in> unique_together ` set table then (Some IntegrityError, table)
      else bulk_create ts (table @ [t]))"

text \<open>\<^verbatim>\<open>translations_queryset.select_for_update().delete()\<close>: the rows of the queryset leave the table.\<close>

definition queryset_delete :: "translation list \<Rightarrow> translation list \<Rightarrow> translation list" where
  "queryset_delete translations_queryset table = filter (\<lambda>t. t \<notin> set translations_queryset) table"

text \<open>
  \<^verbatim>\<open>with transaction.atomic():\<close> commits what the block wrote when the block ends, and
  rolls it back when an exception leaves the block; the exception goes on.
\<close>

definition atomic ::
  "(translation list \<Rightarrow> error option \<times> translation list) \<Rightarrow> translation list
     \<Rightarrow> error option \<times> translation list" where
  "atomic block table =
     (case block table of
        (Some e, table') \<Rightarrow> (Some e, table)
      | (None, table') \<Rightarrow> (None, table'))"

text \<open>The block of the transaction: "delete old translations", "add new translations".\<close>

definition renew_block ::
  "env \<Rightarrow> pyval \<Rightarrow> string \<Rightarrow> field list \<Rightarrow> translation list \<Rightarrow> error option \<times> translation list" where
  "renew_block env context lang translatable_fields table =
     (case get_translations env table context [] (Some lang) of
        Inl e \<Rightarrow> (Some e, table)
      | Inr translations_queryset \<Rightarrow>
          (let table = queryset_delete translations_queryset table;
               translations_objects =
                 concat (map (add_translations env lang translatable_fields) (context_objs context))
           in if length translations_objects > 0 then bulk_create translations_objects table
              else (None, table)))"

text \<open>
  \<^verbatim>\<open>update_translations\<close>: the exception raised, if any, and the table as the call leaves
  it. \<^verbatim>\<open>except Exception: raise\<close> raises the exception again.
\<close>

definition update_translations ::
  "env \<Rightarrow> translation list \<Rightarrow> pyval \<Rightarrow> string option \<Rightarrow> error option \<times> translation list" where
  "update_translations env table context lang =
     (case get_validated_language env lang of
        Inl e \<Rightarrow> (Some e, table)
      | Inr lang \<Rightarrow>
     (case process_context_update context of
        Inl e \<Rightarrow> (Some e, table)
      | Inr None \<Rightarrow> (None, table)
      | Inr (Some (model, is_plural)) \<Rightarrow>
          if is_translatable (meta env model) then
            (case get_translatable_fields env model of
               Inl e \<Rightarrow> (Some e, table)
             | Inr translatable_fields \<Rightarrow>
                 atomic (renew_block env context lang translatable_fields) table)
          else (None, table)))"

section \<open>Facts about the example\<close>

lemma example_language_de: "get_validated_language example_env (Some ''de'') = Inr ''de''"
  by (simp add: get_validated_language_def validate_language_def example_env_def)

lemma example_Continent_translations:
  "get_related_query_name example_env ''Continent'' ''translations'' = Inr ''sample_continent''"
  by (simp add: get_related_query_name.simps get_field_def example_env_def example_meta_def
      relation_field_def text_field_def)

lemma example_Continent_translatable_fields:
  "get_translatable_fields example_env ''Continent'' = Inr [text_field ''name'', text_field ''denonym'']"
  by (simp add: get_translatable_fields_def example_env_def example_meta_def relation_field_def
      text_field_def)

lemma example_Timezone_not_translatable: "\<not> is_translatable (meta example_env ''Timezone'')"
  by (simp add: example_env_def example_meta_def)

lemmas ex_defs =
  example_env_def example_meta_def relation_field_def text_field_def get_field_def

section \<open>Exceptions of the parts\<close>

lemma get_field_error: "get_field env m n = Inl e \<Longrightarrow> e = FieldDoesNotExist"
  by (auto simp: get_field_def split: option.splits)

section \<open>Related query names\<close>

lemma split_join_tl_split:
  "tl (split_sep s) \<noteq> [] \<Longrightarrow> split_sep (join_sep (tl (split_sep s))) = tl (split_sep s)"
proof (induction s rule: split_sep.induct)
  case (3 c d cs)
  show ?case
  proof (cases "c = CHR ''_'' \<and> d = CHR ''_''")
    case True
    then show ?thesis by (simp add: join_split_sep)
  next
    case False
    then have "tl (split_sep (c # d # cs)) = tl (split_sep (d # cs))"
      by (auto split: list.splits)
    with 3 False show ?thesis by auto
  qed
qed simp_all

lemma join_sep_snoc:
  "xs \<noteq> [] \<Longrightarrow> join_sep (xs @ [x]) = join_sep xs @ ''__'' @ x"
  by (induction xs rule: join_sep.induct) (auto simp: LOOKUP_SEP_def)

lemma get_related_query_name_reverse_names:
  "get_related_query_name env model relation =
     (case reverse_names env model (split_sep relation) of
        Inl e \<Rightarrow> Inl e
      | Inr names \<Rightarrow> Inr (join_sep (rev names)))"
proof (induction "length relation" arbitrary: model relation rule: less_induct)
  case less
  obtain root branch where parts: "split_sep relation = root # branch"
    using split_sep_not_Nil [of relation] by (cases "split_sep relation") auto
  show ?case
  proof (cases "get_field env model root")
    case (Inl e)
    then show ?thesis
      by (simp add: get_related_query_name.simps [of env model relation] parts)
  next
    case (Inr field)
    note field = this
    show ?thesis
    proof (cases "remote_field field")
      case None
      with field show ?thesis
        by (simp add: get_related_query_name.simps [of env model relation] parts)
    next
      case (Some name)
      note name = this
      show ?thesis
      proof (cases "branch = []")
        case True
        with field name show ?thesis
          by (simp add: get_related_query_name.simps [of env model relation] parts)
      next
        case False
        note branch = this
        show ?thesis
        proof (cases "related_model field")
          case None
          with field name branch show ?thesis
            by (simp add: get_related_query_name.simps [of env model relation] parts)
        next
          case (Some related)
          have sj: "split_sep (join_sep branch) = branch"
            using split_join_tl_split [of relation] branch parts by simp
          have IH: "get_related_query_name env related (join_sep branch) =
             (case reverse_names env related branch of
                Inl e \<Rightarrow> Inl e
              | Inr names \<Rightarrow> Inr (join_sep (rev names)))"
            using less [of "join_sep branch" related] length_join_tl_split [of relation]
              parts branch sj by simp
          have unfold: "get_related_query_name env model relation =
             (case get_related_query_name env related (join_sep branch) of
                Inl e \<Rightarrow> Inl e
              | Inr b \<Rightarrow> Inr (b @ ''__'' @ name))"
            using field name branch Some
            by (simp add: get_related_query_name.simps [of env model relation] parts)
          have names: "reverse_names env model (split_sep relation) =
             (case reverse_names env related branch of
                Inl e \<Rightarrow> Inl e
              | Inr names \<Rightarrow> Inr (name # names))"
            using field name branch Some by (simp add: parts)
          show ?thesis
          proof (cases "reverse_names env related branch")
            case (Inl e)
            then show ?thesis by (simp add: unfold names IH)
          next
            case (Inr ns)
            have "ns \<noteq> []"
              using branch Inr by (cases branch) (auto split: sum.splits option.splits if_splits)
            then show ?thesis
              by (simp add: unfold names IH Inr join_sep_snoc)
          qed
        qed
      qed
    qed
  qed
qed

lemma reverse_names_unknown_field:
  "follow env model prefix = Some reached \<Longrightarrow> get_field env reached segment = Inl e
     \<Longrightarrow> reverse_names env model (prefix @ segment # rest) = Inl FieldDoesNotExist"
proof (induction prefix arbitrary: model)
  case Nil
  then show ?case by (auto dest: get_field_error)
next
  case (Cons a prefix)
  then show ?case by (auto split: sum.splits option.splits)
qed

section \<open>The hierarchy of relations\<close>

lemma first_occurrences_snoc:
  "first_occurrences (xs @ [x]) =
     (if x \<in> set xs then first_occurrences xs else first_occurrences xs @ [x])"
  by (simp add: first_occurrences_def)

lemma distinct_first_occurrences [simp]: "distinct (first_occurrences xs)"
  by (simp add: first_occurrences_def)

lemma set_first_occurrences [simp]: "set (first_occurrences xs) = set xs"
  by (simp add: first_occurrences_def)

lemma map_entry_map:
  "distinct ks \<Longrightarrow>
     AList.map_entry k f (map (\<lambda>k. (k, g k)) ks) =
       map (\<lambda>k'. (k', if k' = k then f (g k') else g k')) ks"
  by (induction ks) auto

lemma hierarchy_loop_snoc:
  "hierarchy_loop h (ps @ [p]) =
     (case hierarchy_loop h ps of Inl e \<Rightarrow> Inl e | Inr h' \<Rightarrow> hierarchy_step h' p)"
  by (induction ps arbitrary: h) (auto split: sum.splits)

lemma join_sep_empty: "[] \<notin> set xs \<Longrightarrow> join_sep xs = [] \<longleftrightarrow> xs = []"
  by (induction xs rule: join_sep.induct) auto

lemma remaining_paths_unknown: "k \<notin> first_segment ` set paths \<Longrightarrow> remaining_paths paths k = []"
  by (auto simp: remaining_paths_def filter_empty_conv)

lemma setdefault_hierarchy_spec:
  "setdefault (first_segment p) [] (hierarchy_spec ps) =
     map (\<lambda>k. (k, remaining_paths ps k)) (first_occurrences (map first_segment (ps @ [p])))"
proof (cases "first_segment p \<in> first_segment ` set ps")
  case True
  then have "first_segment p \<in> fst ` set (hierarchy_spec ps)"
    by (force simp: hierarchy_spec_def)
  with True show ?thesis
    by (simp add: setdefault_def hierarchy_spec_def first_occurrences_snoc)
next
  case False
  then have "first_segment p \<notin> fst ` set (hierarchy_spec ps)"
    by (force simp: hierarchy_spec_def)
  with False show ?thesis
    by (simp add: setdefault_def hierarchy_spec_def first_occurrences_snoc remaining_paths_unknown)
qed

lemma hierarchy_step_spec:
  assumes "[] \<notin> set (split_sep p)"
  shows "hierarchy_step (hierarchy_spec ps) p = Inr (hierarchy_spec (ps @ [p]))"
proof -
  let ?root = "first_segment p"
  let ?rest = "tl (split_sep p)"
  let ?nest = "join_sep ?rest"
  let ?keys = "first_occurrences (map first_segment (ps @ [p]))"
  have rest: "[] \<notin> set ?rest"
    using assms by (cases "split_sep p") auto
  have nest: "?nest = [] \<longleftrightarrow> ?rest = []"
    using join_sep_empty [OF rest] .
  have sd: "setdefault ?root [] (hierarchy_spec ps) = map (\<lambda>k. (k, remaining_paths ps k)) ?keys"
    by (rule setdefault_hierarchy_spec)
  show ?thesis
  proof (cases "?rest = []")
    case True
    then have "remaining_paths (ps @ [p]) k = remaining_paths ps k" for k
      by (simp add: remaining_paths_def)
    then have "hierarchy_spec (ps @ [p]) = map (\<lambda>k. (k, remaining_paths ps k)) ?keys"
      by (simp add: hierarchy_spec_def)
    with True nest assms sd show ?thesis
      by (simp add: hierarchy_step_def Let_def first_segment_def)
  next
    case False
    then have "remaining_paths (ps @ [p]) k =
        (if k = ?root then remaining_paths ps k @ [?nest] else remaining_paths ps k)" for k
      by (auto simp: remaining_paths_def)
    then have "hierarchy_spec (ps @ [p]) =
        map (\<lambda>k. (k, if k = ?root then remaining_paths ps k @ [?nest] else remaining_paths ps k)) ?keys"
      by (simp add: hierarchy_spec_def)
    moreover have "append_at ?root ?nest (map (\<lambda>k. (k, remaining_paths ps k)) ?keys) =
        map (\<lambda>k. (k, if k = ?root then remaining_paths ps k @ [?nest] else remaining_paths ps k)) ?keys"
      unfolding append_at_def by (rule map_entry_map) simp
    ultimately show ?thesis
      using False nest assms sd
      by (simp add: hierarchy_step_def Let_def first_segment_def [symmetric])
  qed
qed

lemma get_relations_hierarchy_spec:
  "(\<forall>p \<in> set paths. [] \<notin> set (split_sep p)) \<Longrightarrow>
     get_relations_hierarchy paths = Inr (hierarchy_spec paths)"
proof (induction paths rule: rev_induct)
  case Nil
  then show ?case
    by (simp add: get_relations_hierarchy_def hierarchy_spec_def first_occurrences_def)
next
  case (snoc p ps)
  then show ?case
    by (simp add: get_relations_hierarchy_def hierarchy_loop_snoc hierarchy_step_spec)
qed

section \<open>Attributes and the loops of overlay\<close>

lemma getattr_setattr:
  "getattr (setattr obj n s) name = (if name = n then PStr s else getattr obj name)"
  by (auto simp: getattr_def setattr_def update_conv')

lemma hasattr_setattr: "hasattr (setattr obj n s) name \<longleftrightarrow> name = n \<or> hasattr obj name"
  by (auto simp: hasattr_def setattr_def dom_update)

lemma inst_model_setattr [simp]: "inst_model (setattr obj n s) = inst_model obj"
  by (simp add: setattr_def)

lemma getattr_put_related:
  "getattr (put_related obj n v) name =
     (if name = n \<and> n \<noteq> ''id'' then v else getattr obj name)"
  by (auto simp: getattr_def put_related_def update_conv')

lemma apply_translations_frame:
  "apply_translations env model tfs rows obj = (r, obj') \<Longrightarrow>
   getattr obj' name \<noteq> getattr obj name \<Longrightarrow>
   \<exists>row \<in> set rows. tr_field row = name \<and> tr_text row \<noteq> [] \<and> hasattr obj name
      \<and> (\<exists>f. get_field env model name = Inr f \<and> f \<in> set tfs)
      \<and> getattr obj' name = PStr (tr_text row)"
proof (induction rows arbitrary: obj)
  case Nil
  then show ?case by simp
next
  case (Cons t ts)
  show ?case
  proof (cases "get_field env model (tr_field t)")
    case (Inl e)
    with Cons.prems show ?thesis by simp
  next
    case (Inr f)
    let ?cond = "f \<in> set tfs \<and> hasattr obj (tr_field t) \<and> tr_text t \<noteq> []"
    let ?obj1 = "if ?cond then setattr obj (tr_field t) (tr_text t) else obj"
    have rest: "apply_translations env model tfs ts ?obj1 = (r, obj')"
      using Cons.prems(1) Inr by simp
    show ?thesis
    proof (cases "getattr obj' name = getattr ?obj1 name")
      case True
      with Cons.prems(2) have "?cond \<and> name = tr_field t \<and> getattr ?obj1 name = PStr (tr_text t)"
        by (auto simp: getattr_setattr split: if_splits)
      with True Inr show ?thesis by auto
    next
      case False
      from Cons.IH [OF rest False] obtain row where row: "row \<in> set ts" "tr_field row = name"
        "tr_text row \<noteq> []" "hasattr ?obj1 name" "\<exists>f. get_field env model name = Inr f \<and> f \<in> set tfs"
        "getattr obj' name = PStr (tr_text row)"
        by blast
      have "hasattr obj name"
        using row(4) by (auto simp: hasattr_setattr split: if_splits)
      with row show ?thesis by auto
    qed
  qed
qed

lemma for_all_result:
  "for_all f objs = (r, objs') \<Longrightarrow>
   length objs' = length objs \<and>
   (\<forall>i < length objs. objs' ! i = objs ! i \<or> objs' ! i = snd (f (objs ! i)))"
proof (induction objs arbitrary: r objs')
  case Nil
  then show ?case by simp
next
  case (Cons obj objs)
  obtain r1 obj1 where f: "f obj = (r1, obj1)" by (cases "f obj")
  show ?case
  proof (cases r1)
    case (Some e)
    with Cons.prems f have "objs' = obj1 # objs" by simp
    with f show ?thesis by (auto simp: nth_Cons split: nat.splits)
  next
    case None
    obtain r2 objs2 where rest: "for_all f objs = (r2, objs2)" by (cases "for_all f objs")
    with Cons.prems f None have "objs' = obj1 # objs2" by simp
    with Cons.IH [OF rest] f show ?thesis by (auto simp: nth_Cons split: nat.splits)
  qed
qed

lemma for_context_result:
  assumes "for_context f context = (r, context')"
  shows "length (context_objs context') = length (context_objs context) \<and>
   (\<forall>i < length (context_objs context).
      context_objs context' ! i = context_objs context ! i
      \<or> context_objs context' ! i = snd (f (context_objs context ! i)))"
proof (cases "context")
  case (PObj obj)
  with assms show ?thesis by (cases "f obj") auto
next
  case (PList objs)
  with assms for_all_result [of f objs] show ?thesis by (cases "for_all f objs") auto
next
  case (PQuerySet m objs)
  with assms for_all_result [of f objs] show ?thesis by (cases "for_all f objs") auto
qed (use assms in auto)

lemma translate_text: "snd (translate env table (PStr s) relations lang tq) = PStr s"
  by (simp add: translate.simps process_context_translate_def split: sum.splits)

lemma manager_back_text:
  "\<not> related_value v \<Longrightarrow> v \<noteq> PNone \<Longrightarrow>
     manager_back v (snd (translate env table (manager_all v) relations lang tq)) = v"
  by (cases v) (simp_all add: translate_text)

lemma translate_rel_frame:
  "translate_rel env table items lang d obj = (r, obj') \<Longrightarrow>
   getattr obj' name \<noteq> getattr obj name \<Longrightarrow> related_value (getattr obj name)"
proof (induction items arbitrary: obj)
  case Nil
  then show ?case by simp
next
  case (Cons item items)
  obtain key descendants where item: "item = (key, descendants)" by (cases item)
  let ?v = "getattr obj key"
  show ?case
  proof (cases "?v = PNone")
    case True
    with Cons item show ?thesis by simp
  next
    case False
    obtain r1 v1 where tr: "translate env table (manager_all ?v) descendants (Some lang) (TQDict d) = (r1, v1)"
      by (cases "translate env table (manager_all ?v) descendants (Some lang) (TQDict d)")
    let ?obj1 = "put_related obj key (manager_back ?v v1)"
    have step: "getattr ?obj1 name \<noteq> getattr obj name \<Longrightarrow> related_value (getattr obj name)"
      using manager_back_text [of ?v env table descendants "Some lang" "TQDict d"] tr False
      by (auto simp: getattr_put_related split: if_splits)
    show ?thesis
    proof (cases r1)
      case (Some e)
      with Cons.prems item False tr have "obj' = ?obj1" by (simp add: Let_def)
      with Cons.prems(2) step show ?thesis by simp
    next
      case None
      with Cons.prems item False tr
      have rest: "translate_rel env table items lang d ?obj1 = (r, obj')" by (simp add: Let_def)
      show ?thesis
      proof (cases "getattr obj' name = getattr ?obj1 name")
        case True
        with Cons.prems(2) step show ?thesis by simp
      next
        case False
        from Cons.IH [OF rest False] step show ?thesis by metis
      qed
    qed
  qed
qed

lemma get_validated_language_member:
  "get_validated_language env lang = Inr l \<Longrightarrow> l \<in> set (LANGUAGES env)"
  by (auto simp: get_validated_language_def validate_language_def split: option.splits if_splits)

lemma get_validated_language_again:
  "get_validated_language env lang = Inr l \<Longrightarrow> get_validated_language env (Some l) = Inr l"
  by (auto simp: get_validated_language_def validate_language_def split: option.splits if_splits)





lemma translate_obj_frame:
  assumes "translate_obj env model tfs d obj = (r, obj')"
    and "getattr obj' name \<noteq> getattr obj name"
    and "is_translatable (meta env model)"
    and "get_translatable_fields env model = Inr tfs"
  shows "\<exists>row. translated_by env model d obj name row \<and> getattr obj' name = PStr (tr_text row)"
proof (cases "dict_lookup d model (inst_id obj)")
  case None
  with assms show ?thesis by (simp add: translate_obj_def)
next
  case (Some rows)
  with assms(1) have "apply_translations env model tfs rows obj = (r, obj')"
    by (simp add: translate_obj_def)
  from apply_translations_frame [OF this assms(2)] Some assms(3,4) show ?thesis
    by (auto simp: translated_by_def)
qed

lemma translate_context_itself_frame:
  assumes "translate_context_itself env model d context = (r, context')"
  shows "length (context_objs context') = length (context_objs context) \<and>
   (\<forall>i name. i < length (context_objs context) \<longrightarrow>
      getattr (context_objs context' ! i) name \<noteq> getattr (context_objs context ! i) name \<longrightarrow>
      (\<exists>row. translated_by env model d (context_objs context ! i) name row
         \<and> getattr (context_objs context' ! i) name = PStr (tr_text row)))"
proof (cases "is_translatable (meta env model)")
  case False
  with assms show ?thesis by (simp add: translate_context_itself_def)
next
  case True
  note tr = this
  show ?thesis
  proof (cases "get_translatable_fields env model")
    case (Inl e)
    with assms tr show ?thesis by (simp add: translate_context_itself_def)
  next
    case (Inr tfs)
    with assms tr have fc: "for_context (translate_obj env model tfs d) context = (r, context')"
      by (simp add: translate_context_itself_def)
    note res = for_context_result [OF fc]
    show ?thesis
    proof (intro conjI allI impI)
      show "length (context_objs context') = length (context_objs context)"
        using res by simp
    next
      fix i name
      assume i: "i < length (context_objs context)"
        and ch: "getattr (context_objs context' ! i) name \<noteq> getattr (context_objs context ! i) name"
      let ?obj = "context_objs context ! i"
      from res i ch have eq: "context_objs context' ! i = snd (translate_obj env model tfs d ?obj)"
        by auto
      obtain r1 where "translate_obj env model tfs d ?obj = (r1, context_objs context' ! i)"
        using eq by (cases "translate_obj env model tfs d ?obj") auto
      from translate_obj_frame [OF this ch tr Inr]
      show "\<exists>row. translated_by env model d ?obj name row
         \<and> getattr (context_objs context' ! i) name = PStr (tr_text row)" .
    qed
  qed
qed

lemma translate_rel_context_frame:
  assumes "for_context (\<lambda>obj. translate_rel env table items lang d obj) context = (r, context')"
  shows "length (context_objs context') = length (context_objs context) \<and>
   (\<forall>i name. i < length (context_objs context) \<longrightarrow>
      getattr (context_objs context' ! i) name \<noteq> getattr (context_objs context ! i) name \<longrightarrow>
      related_value (getattr (context_objs context ! i) name))"
proof (intro conjI allI impI)
  note res = for_context_result [OF assms]
  show "length (context_objs context') = length (context_objs context)"
    using res by simp
  fix i name
  assume i: "i < length (context_objs context)"
    and ch: "getattr (context_objs context' ! i) name \<noteq> getattr (context_objs context ! i) name"
  let ?obj = "context_objs context ! i"
  from res i ch have eq: "context_objs context' ! i = snd (translate_rel env table items lang d ?obj)"
    by auto
  obtain r1 where "translate_rel env table items lang d ?obj = (r1, context_objs context' ! i)"
    using eq by (cases "translate_rel env table items lang d ?obj") auto
  from translate_rel_frame [OF this ch]
  show "related_value (getattr ?obj name)" .
qed



section \<open>Errors of the first stage of overlay\<close>








section \<open>What a call of \<^verbatim>\<open>update_translations\<close> on one object leaves in the table\<close>

lemma get_translatable_fields_translatable:
  "get_translatable_fields env m = Inr tfs \<Longrightarrow> is_translatable (meta env m)"
  by (simp add: get_translatable_fields_def split: if_splits)






lemma get_translations_own:
  assumes "get_validated_language env lang = Inr l"
    and "is_translatable (meta env (inst_model obj))"
    and "generic_relation env (inst_model obj)"
  shows "get_translations env table (PObj obj) [] lang
           = Inr (filter (owned (inst_model obj) (inst_id obj) l) table)"
proof -
  from assms(3) obtain r where r: "get_related_query_name env (inst_model obj) ''translations'' = Inr r"
    and q: "\<And>t i. q_holds env (r @ ''__id'', IdEq i) t
                = (tr_content_type t = inst_model obj \<and> tr_object_id t = i)"
    by (auto simp: generic_relation_def)
  have "filter (\<lambda>t. tr_language t = l \<and> q_holds env (r @ ''__id'', IdEq (inst_id obj)) t) table
          = filter (owned (inst_model obj) (inst_id obj) l) table"
    by (rule filter_cong) (auto simp: q owned_def)
  with assms(1,2) r show ?thesis
    by (simp add: get_translations_def process_context_fetch_def)
qed

lemma bulk_create_ok:
  "distinct (map unique_together ts) \<Longrightarrow>
   unique_together ` set ts \<inter> unique_together ` set table = {} \<Longrightarrow>
   bulk_create ts table = (None, table @ ts)"
proof (induction ts arbitrary: table)
  case Nil
  then show ?case by simp
next
  case (Cons t ts)
  from Cons.prems have 1: "unique_together t \<notin> unique_together ` set table" by auto
  from Cons.prems have 2: "distinct (map unique_together ts)" by simp
  from Cons.prems have 3: "unique_together ` set ts \<inter> unique_together ` set (table @ [t]) = {}"
    by auto
  from Cons.IH [OF 2 3] 1 show ?case by simp
qed

lemma add_translations_owned:
  "t \<in> set (add_translations env l tfs obj) \<Longrightarrow> owned (inst_model obj) (inst_id obj) l t"
  by (auto simp: add_translations_def owned_def)

lemma add_translations_fields:
  "map tr_field (add_translations env l tfs obj)
     = map field_name (filter (\<lambda>field. truthy (getattr obj (field_name field))) tfs)"
  by (simp add: add_translations_def)

lemma add_translations_distinct_fields:
  "distinct (map field_name tfs) \<Longrightarrow> distinct (map tr_field (add_translations env l tfs obj))"
  by (simp add: add_translations_fields distinct_map_filter)

lemma add_translations_distinct:
  assumes "distinct (map field_name tfs)"
  shows "distinct (map unique_together (add_translations env l tfs obj))"
proof -
  have "map tr_field (add_translations env l tfs obj)
          = map (\<lambda>k. fst (snd (snd k))) (map unique_together (add_translations env l tfs obj))"
    by (simp add: unique_together_def)
  with add_translations_distinct_fields [OF assms, of env l obj]
  show ?thesis by (metis distinct_map)
qed

lemma renew_block_own:
  assumes "get_validated_language env (Some l) = Inr l"
    and "is_translatable (meta env (inst_model obj))"
    and "generic_relation env (inst_model obj)"
    and "distinct (map field_name tfs)"
  shows "renew_block env (PObj obj) l tfs table
           = (None, filter (\<lambda>t. \<not> owned (inst_model obj) (inst_id obj) l t) table
                      @ add_translations env l tfs obj)"
proof -
  let ?own = "owned (inst_model obj) (inst_id obj) l"
  let ?kept = "filter (\<lambda>t. \<not> ?own t) table"
  let ?new = "add_translations env l tfs obj"
  have del: "queryset_delete (filter ?own table) table = ?kept"
    by (simp add: queryset_delete_def) (rule filter_cong, auto)
  have "False" if t: "t \<in> set ?new" and u: "u \<in> set ?kept"
    and k: "unique_together t = unique_together u" for t u
  proof -
    from add_translations_owned [OF t] k have "?own u"
      by (simp add: owned_def unique_together_def)
    with u show False by simp
  qed
  then have "unique_together ` set ?new \<inter> unique_together ` set ?kept = {}"
    by blast
  from bulk_create_ok [OF add_translations_distinct [OF assms(4)] this]
  have "bulk_create ?new ?kept = (None, ?kept @ ?new)" .
  moreover have "?new = [] \<Longrightarrow> (None, ?kept) = (None, ?kept @ ?new)" by simp
  ultimately show ?thesis
    using get_translations_own [OF assms(1-3)] del
    by (simp add: renew_block_def Let_def)
qed

lemma update_translations_own:
  assumes "get_validated_language env lang = Inr l"
    and "get_translatable_fields env (inst_model obj) = Inr tfs"
    and "generic_relation env (inst_model obj)"
    and "distinct (map field_name tfs)"
  shows "update_translations env table (PObj obj) lang
           = (None, filter (\<lambda>t. \<not> owned (inst_model obj) (inst_id obj) l t) table
                      @ add_translations env l tfs obj)"
  using assms renew_block_own [OF get_validated_language_again [OF assms(1)]
      get_translatable_fields_translatable [OF assms(2)] assms(3,4), of table]
  by (simp add: update_translations_def process_context_update_def atomic_def
      get_translatable_fields_translatable)

lemma filter_owned_result:
  "filter (owned m i l) (filter (\<lambda>t. \<not> owned m i l t) table @ add_translations env l tfs obj)
     = filter (owned m i l) (add_translations env l tfs obj)"
  by (simp add: filter_empty_conv)

lemma filter_owned_add_translations:
  "filter (owned (inst_model obj) (inst_id obj) l) (add_translations env l tfs obj)
     = add_translations env l tfs obj"
  by (simp add: filter_id_conv add_translations_owned)

lemma distinct_renewed:
  assumes "distinct (map unique_together table)"
    and "distinct (map field_name tfs)"
  shows "distinct (map unique_together
           (filter (\<lambda>t. \<not> owned (inst_model obj) (inst_id obj) l t) table
              @ add_translations env l tfs obj))"
proof -
  let ?own = "owned (inst_model obj) (inst_id obj) l"
  let ?kept = "filter (\<lambda>t. \<not> ?own t) table"
  let ?new = "add_translations env l tfs obj"
  have False if t: "t \<in> set ?new" and u: "u \<in> set ?kept"
    and k: "unique_together t = unique_together u" for t u
  proof -
    from add_translations_owned [OF t] k have "?own u"
      by (simp add: owned_def unique_together_def)
    with u show False by simp
  qed
  then have "unique_together ` set ?new \<inter> unique_together ` set ?kept = {}"
    by blast
  then have "unique_together ` set ?kept \<inter> unique_together ` set ?new = {}"
    by (simp add: Int_commute)
  moreover from assms(1) have "distinct (map unique_together ?kept)"
    by (rule distinct_map_filter)
  ultimately show ?thesis
    using add_translations_distinct [OF assms(2), of env l obj] by simp
qed

lemma example_generic_relation: "generic_relation example_env ''Continent''"
proof -
  have name: "''sample_continent'' = example_generic_name m \<longleftrightarrow> m = ''Continent''" for m
    by (simp add: example_generic_name_def)
  have q: "q_holds example_env = example_q_holds"
    by (simp add: example_env_def)
  have "(\<forall>t i. q_holds example_env (''sample_continent'' @ ''__'' @ ''id'', IdEq i) t
                   = (tr_content_type t = ''Continent'' \<and> tr_object_id t = i))
        \<and> (\<forall>t ids. q_holds example_env (''sample_continent'' @ ''__'' @ ''id__in'', IdIn ids) t
                   = (tr_content_type t = ''Continent'' \<and> tr_object_id t \<in> set ids))"
    unfolding q by (simp add: example_q_holds_def name)
  with example_Continent_translations show ?thesis
    unfolding generic_relation_def by blast
qed

section \<open>The object graph after an overlay\<close>













lemma overlaid_refl: "overlaid env d model obj obj"
  by (rule overlaid_obj) auto










section \<open>The outcome of a call of \<^verbatim>\<open>update_translations\<close> on one object\<close>

lemma bulk_create_None:
  "bulk_create ts table = (None, table') \<Longrightarrow>
   table' = table @ ts \<and> distinct (map unique_together ts)
     \<and> unique_together ` set ts \<inter> unique_together ` set table = {}"
proof (induction ts arbitrary: table)
  case Nil
  then show ?case by simp
next
  case (Cons t ts)
  from Cons.prems have 1: "unique_together t \<notin> unique_together ` set table"
    by (auto split: if_splits)
  with Cons.prems have "bulk_create ts (table @ [t]) = (None, table')"
    by (simp add: image_iff)
  from Cons.IH [OF this] have "table' = (table @ [t]) @ ts" "distinct (map unique_together ts)"
    "unique_together ` set ts \<inter> unique_together ` set (table @ [t]) = {}"
    by blast+
  with 1 show ?case by auto
qed

lemma bulk_create_Some:
  "bulk_create ts table = (Some e, table') \<Longrightarrow> e = IntegrityError"
proof (induction ts arbitrary: table)
  case Nil
  then show ?case by simp
next
  case (Cons t ts)
  show ?case
  proof (cases "unique_together t \<in> unique_together ` set table")
    case True
    with Cons.prems show ?thesis by simp
  next
    case False
    with Cons.prems have "bulk_create ts (table @ [t]) = (Some e, table')" by simp
    then show ?thesis by (rule Cons.IH)
  qed
qed

lemma kept_staged_disjoint:
  "unique_together ` set (add_translations env l tfs obj)
     \<inter> unique_together ` set (filter (\<lambda>t. \<not> owned (inst_model obj) (inst_id obj) l t) table) = {}"
proof -
  let ?own = "owned (inst_model obj) (inst_id obj) l"
  have False if t: "t \<in> set (add_translations env l tfs obj)"
    and u: "u \<in> set (filter (\<lambda>t. \<not> ?own t) table)"
    and k: "unique_together t = unique_together u" for t u
  proof -
    from add_translations_owned [OF t] k have "?own u"
      by (simp add: owned_def unique_together_def)
    with u show False by simp
  qed
  then show ?thesis by blast
qed

lemma update_translations_outcome:
  assumes "get_validated_language env lang = Inr l"
    and "get_translatable_fields env (inst_model obj) = Inr tfs"
    and "generic_relation env (inst_model obj)"
    and "update_translations env table (PObj obj) lang = (r, table')"
  shows "(r = None
          \<and> table' = filter (\<lambda>t. \<not> owned (inst_model obj) (inst_id obj) l t) table
                       @ add_translations env l tfs obj
          \<and> distinct (map unique_together (add_translations env l tfs obj)))
       \<or> (r = Some IntegrityError \<and> table' = table
          \<and> \<not> distinct (map unique_together (add_translations env l tfs obj)))"
proof -
  let ?own = "owned (inst_model obj) (inst_id obj) l"
  let ?kept = "filter (\<lambda>t. \<not> ?own t) table"
  let ?new = "add_translations env l tfs obj"
  have tr: "is_translatable (meta env (inst_model obj))"
    using assms(2) by (rule get_translatable_fields_translatable)
  have del: "queryset_delete (filter ?own table) table = ?kept"
    by (simp add: queryset_delete_def) (rule filter_cong, auto)
  have block: "renew_block env (PObj obj) l tfs table
                 = (if ?new \<noteq> [] then bulk_create ?new ?kept else (None, ?kept))"
    using get_translations_own [OF get_validated_language_again [OF assms(1)] tr assms(3), of table] del
    by (simp add: renew_block_def Let_def)
  have call: "update_translations env table (PObj obj) lang
                = atomic (renew_block env (PObj obj) l tfs) table"
    using assms(1,2) tr by (simp add: update_translations_def process_context_update_def)
  show ?thesis
  proof (cases "distinct (map unique_together ?new)")
    case True
    from bulk_create_ok [OF True kept_staged_disjoint]
    have "bulk_create ?new ?kept = (None, ?kept @ ?new)" .
    with block have "renew_block env (PObj obj) l tfs table = (None, ?kept @ ?new)"
      by (cases "?new = []") simp_all
    with call assms(4) True show ?thesis by (simp add: atomic_def)
  next
    case False
    then have ne: "?new \<noteq> []" by auto
    obtain r1 t1 where b: "bulk_create ?new ?kept = (r1, t1)" by (cases "bulk_create ?new ?kept")
    from bulk_create_None [of ?new ?kept t1] b False obtain e where e: "r1 = Some e"
      by (cases r1) auto
    with b have "e = IntegrityError" by (auto dest: bulk_create_Some)
    with block ne b e have "renew_block env (PObj obj) l tfs table = (Some IntegrityError, t1)"
      by simp
    with call assms(4) False show ?thesis by (simp add: atomic_def)
  qed
qed

lemma distinct_kept_staged:
  assumes "distinct (map unique_together table)"
    and "distinct (map unique_together (add_translations env l tfs obj))"
  shows "distinct (map unique_together
           (filter (\<lambda>t. \<not> owned (inst_model obj) (inst_id obj) l t) table
              @ add_translations env l tfs obj))"
proof -
  from assms(1) have "distinct (map unique_together
      (filter (\<lambda>t. \<not> owned (inst_model obj) (inst_id obj) l t) table))"
    by (rule distinct_map_filter)
  with assms(2) kept_staged_disjoint [of env l tfs obj table] show ?thesis
    by (simp add: Int_commute)
qed

lemma add_translations_text:
  assumes "f \<in> set tfs" and "getattr obj (field_name f) = PStr s" and "s \<noteq> []"
  shows "\<lparr>tr_content_type = inst_model obj, tr_object_id = inst_id obj,
          tr_field = field_name f, tr_language = l, tr_text = s\<rparr>
           \<in> set (add_translations env l tfs obj)"
proof -
  from assms have "f \<in> set (filter (\<lambda>field. truthy (getattr obj (field_name field))) tfs)"
    by simp
  then have "(\<lambda>field.
            \<lparr>tr_content_type = inst_model obj, tr_object_id = inst_id obj,
             tr_field = field_name field, tr_language = l,
             tr_text = text_of env (getattr obj (field_name field))\<rparr>) f
     \<in> set (add_translations env l tfs obj)"
    unfolding add_translations_def set_map by (rule imageI)
  with assms(2) show ?thesis by (simp add: text_of_def)
qed

lemma example_persist_europe:
  "update_translations example_env [europa_de] (PObj europe) (Some ''de'')
     = (None,
        [\<lparr>tr_content_type = ''Continent'', tr_object_id = ''1'', tr_field = ''name'',
          tr_language = ''de'', tr_text = ''Europe''\<rparr>,
         \<lparr>tr_content_type = ''Continent'', tr_object_id = ''1'', tr_field = ''denonym'',
          tr_language = ''de'', tr_text = ''European''\<rparr>])"
  by code_simp

lemma example_persist_europa:
  "update_translations example_env
        [\<lparr>tr_content_type = ''Continent'', tr_object_id = ''1'', tr_field = ''name'',
          tr_language = ''de'', tr_text = ''Europe''\<rparr>,
         \<lparr>tr_content_type = ''Continent'', tr_object_id = ''1'', tr_field = ''denonym'',
          tr_language = ''de'', tr_text = ''European''\<rparr>]
        (PObj europa) (Some ''de'')
     = (None,
        [\<lparr>tr_content_type = ''Continent'', tr_object_id = ''1'', tr_field = ''name'',
          tr_language = ''de'', tr_text = ''Europa''\<rparr>,
         \<lparr>tr_content_type = ''Continent'', tr_object_id = ''1'', tr_field = ''denonym'',
          tr_language = ''de'', tr_text = ''European''\<rparr>])"
  by code_simp

lemma example_staged_europa:
  "map (\<lambda>field.
          \<lparr>tr_content_type = ''Continent'', tr_object_id = inst_id europe,
           tr_field = field_name field, tr_language = ''de'',
           tr_text = text_of example_env (getattr europa (field_name field))\<rparr>)
       (filter (\<lambda>field. truthy (getattr europa (field_name field)))
          [text_field ''name'', text_field ''denonym''])
     = [\<lparr>tr_content_type = ''Continent'', tr_object_id = ''1'', tr_field = ''name'',
          tr_language = ''de'', tr_text = ''Europa''\<rparr>,
         \<lparr>tr_content_type = ''Continent'', tr_object_id = ''1'', tr_field = ''denonym'',
          tr_language = ''de'', tr_text = ''European''\<rparr>]"
  by code_simp

lemma example_persist_repeated:
  "update_translations repeated_env [europa_de] (PObj europe) (Some ''de'')
     = (Some IntegrityError, [europa_de])"
  by code_simp

section \<open>Overlay of the rows that a call of \<^verbatim>\<open>update_translations\<close> staged\<close>








section \<open>The claims\<close>

text \<open>
  C2. A fetch whose context has a model that is not translatable, with no relation
  paths, adds no filter clause. The claim says that it then succeeds with an empty
  set; the code reaches \<^verbatim>\<open>Translatable.objects.none()\<close> there, which reads a manager
  from the abstract model \<^verbatim>\<open>Translatable\<close> instead of \<^verbatim>\<open>Translation\<close>, and the call
  raises \<open>AttributeError\<close>.
\<close>

theorem fetch_not_translatable_no_relations:
  assumes "get_validated_language env lang = Inr l"
    and "process_context_fetch context = Inr (model, filter_string, context_value)"
    and "\<not> is_translatable (meta env model)"
  shows "get_translations env table context [] lang = Inl AttributeError"
  using assms by (simp add: get_translations_def Translatable_objects_none_def)

theorem fetch_not_translatable_no_relations_witness:
  "get_translations example_env [europa_de] (PObj utc) [] (Some ''de'') = Inl AttributeError"
  using fetch_not_translatable_no_relations
    [of example_env "Some ''de''" "''de''" "PObj utc" "''Timezone''" "''id''" "IdEq ''7''" "[europa_de]"]
  by (simp add: example_language_de example_Timezone_not_translatable process_context_fetch_def
      utc_def)



text \<open>
  C6. A context that is no instance, no list and no queryset makes fetch and overlay
  raise the exception for a bad context. The empty list does not: both operations
  read \<^verbatim>\<open>context[0]\<close> of every list, and on the empty list that raises \<open>IndexError\<close>,
  once the language is validated. (\<^verbatim>\<open>update_translations\<close> tests the length first.)
\<close>

theorem empty_list_context_IndexError:
  assumes "get_validated_language env lang = Inr l"
  shows "get_translations env table (PList []) relations lang = Inl IndexError
       \<and> translate env table (PList []) relations lang translations_queryset
           = (Some IndexError, PList [])"
  using assms
  by (simp add: get_translations_def process_context_fetch_def translate.simps
      process_context_translate_def)

theorem empty_list_context_IndexError_witness:
  "get_translations example_env [europa_de] (PList []) [] (Some ''de'') = Inl IndexError
   \<and> translate example_env [europa_de] (PList []) [] (Some ''de'') TQNone
       = (Some IndexError, PList [])"
  using empty_list_context_IndexError [OF example_language_de] by simp

text \<open>
  C7. For every list of relation paths whose segments are all non-empty,
  \<^verbatim>\<open>get_relations_hierarchy\<close> returns the hierarchy of the specification: the first
  segments in the order of their first occurrence, each with the list of the remaining
  joined segments of its paths, in the order of the paths; a path of one segment gives
  its key and adds nothing to the list. In particular the three paths of the
  specification give \<open>a\<close> with \<open>b__c\<close> and \<open>b__d\<close>, and \<open>e\<close> with the empty list.
\<close>

theorem get_relations_hierarchy_groups:
  assumes "\<forall>path \<in> set paths. [] \<notin> set (split_sep path)"
  shows "get_relations_hierarchy paths = Inr (hierarchy_spec paths)
       \<and> get_relations_hierarchy [''a__b__c'', ''a__b__d'', ''e'']
           = Inr [(''a'', [''b__c'', ''b__d'']), (''e'', [])]"
proof
  show "get_relations_hierarchy paths = Inr (hierarchy_spec paths)"
    using assms by (rule get_relations_hierarchy_spec)
  show "get_relations_hierarchy [''a__b__c'', ''a__b__d'', ''e'']
          = Inr [(''a'', [''b__c'', ''b__d'']), (''e'', [])]"
    by code_simp
qed

theorem get_relations_hierarchy_groups_witness:
  "get_relations_hierarchy
     [''countries__states__cities'', ''countries__states__villages'', ''timezone'',
      ''countries__phone_number'']
     = Inr [(''countries'', [''states__cities'', ''states__villages'', ''phone_number'']),
            (''timezone'', [])]"
proof -
  let ?paths = "[''countries__states__cities'', ''countries__states__villages'', ''timezone'',
      ''countries__phone_number'']"
  have ok: "\<forall>path \<in> set ?paths. [] \<notin> set (split_sep path)"
    by code_simp
  have spec: "hierarchy_spec ?paths
     = [(''countries'', [''states__cities'', ''states__villages'', ''phone_number'']),
        (''timezone'', [])]"
    by code_simp
  from get_relations_hierarchy_groups [OF ok] spec show ?thesis
    by simp
qed

text \<open>
  C8, as amended. \<^verbatim>\<open>get_related_query_name\<close> returns the reverse relation names of the
  segments joined from the last segment to the first; for a path of several segments
  whose first segment names a relation, that is the name for the remaining path on the
  related model, the separator, and the reverse name of the first segment. It fails
  with \<open>FieldDoesNotExist\<close> (the specification's UnknownRelation) when a segment, reached
  through relations, names no field of its model.
\<close>

theorem get_related_query_name_right_to_left:
  "get_related_query_name env model relation =
     (case reverse_names env model (split_sep relation) of
        Inl e \<Rightarrow> Inl e
      | Inr names \<Rightarrow> Inr (join_sep (rev names)))
   \<and> (\<forall>field name related.
        tl (split_sep relation) \<noteq> [] \<longrightarrow>
        get_field env model (hd (split_sep relation)) = Inr field \<longrightarrow>
        remote_field field = Some name \<longrightarrow>
        related_model field = Some related \<longrightarrow>
        get_related_query_name env model relation =
          (case get_related_query_name env related (join_sep (tl (split_sep relation))) of
             Inl e \<Rightarrow> Inl e
           | Inr branch_name \<Rightarrow> Inr (branch_name @ LOOKUP_SEP @ name)))
   \<and> (\<forall>prefix segment rest reached.
        split_sep relation = prefix @ segment # rest \<longrightarrow>
        follow env model prefix = Some reached \<longrightarrow>
        get_field env reached segment = Inl FieldDoesNotExist \<longrightarrow>
        get_related_query_name env model relation = Inl FieldDoesNotExist)"
proof (intro conjI allI impI)
  show "get_related_query_name env model relation =
     (case reverse_names env model (split_sep relation) of
        Inl e \<Rightarrow> Inl e
      | Inr names \<Rightarrow> Inr (join_sep (rev names)))"
    by (rule get_related_query_name_reverse_names)
next
  fix field name related
  assume "tl (split_sep relation) \<noteq> []"
    and "get_field env model (hd (split_sep relation)) = Inr field"
    and "remote_field field = Some name"
    and "related_model field = Some related"
  then show "get_related_query_name env model relation =
          (case get_related_query_name env related (join_sep (tl (split_sep relation))) of
             Inl e \<Rightarrow> Inl e
           | Inr branch_name \<Rightarrow> Inr (branch_name @ LOOKUP_SEP @ name))"
    by (simp add: get_related_query_name.simps [of env model relation] LOOKUP_SEP_def
        split: sum.splits)
next
  fix prefix segment rest reached
  assume "split_sep relation = prefix @ segment # rest"
    and "follow env model prefix = Some reached"
    and "get_field env reached segment = Inl FieldDoesNotExist"
  then show "get_related_query_name env model relation = Inl FieldDoesNotExist"
    by (simp add: get_related_query_name_reverse_names reverse_names_unknown_field)
qed

theorem get_related_query_name_right_to_left_witness:
  "get_related_query_name example_env ''Continent'' ''countries__states__cities''
     = Inr ''state__country__continent''
   \<and> get_related_query_name example_env ''Continent'' ''countries__states__towns''
     = Inl FieldDoesNotExist"
proof
  have "reverse_names example_env ''Continent'' (split_sep ''countries__states__cities'')
          = Inr [''continent'', ''country'', ''state'']"
    by (simp add: ex_defs)
  with get_related_query_name_right_to_left
         [of example_env "''Continent''" "''countries__states__cities''"]
  show "get_related_query_name example_env ''Continent'' ''countries__states__cities''
          = Inr ''state__country__continent''"
    by (simp add: LOOKUP_SEP_def)
  have "split_sep ''countries__states__towns'' = [''countries'', ''states''] @ ''towns'' # []"
    by simp
  moreover have "follow example_env ''Continent'' [''countries'', ''states''] = Some ''State''"
    by (simp add: ex_defs)
  moreover have "get_field example_env ''State'' ''towns'' = Inl FieldDoesNotExist"
    by (simp add: ex_defs)
  ultimately
  show "get_related_query_name example_env ''Continent'' ''countries__states__towns''
          = Inl FieldDoesNotExist"
    using get_related_query_name_right_to_left
         [of example_env "''Continent''" "''countries__states__towns''"]
    by blast
qed

text \<open>
  The claim as it was stated gives UnknownRelation for every segment that names no
  relation. A segment that names a field which is no relation, such as the text field
  \<^verbatim>\<open>name\<close> of a country, makes the code read \<^verbatim>\<open>remote_field.name\<close> of \<^verbatim>\<open>None\<close>, which is an
  \<open>AttributeError\<close>.
\<close>

theorem get_related_query_name_text_field_counterexample:
  "get_field example_env ''Country'' ''name'' = Inr (text_field ''name'')
   \<and> remote_field (text_field ''name'') = None
   \<and> get_related_query_name example_env ''Continent'' ''countries__name'' = Inl AttributeError
   \<and> get_related_query_name example_env ''Continent'' ''countries__name'' \<noteq> Inl FieldDoesNotExist"
proof -
  have "reverse_names example_env ''Continent'' (split_sep ''countries__name'') = Inl AttributeError"
    by (simp add: ex_defs)
  then have "get_related_query_name example_env ''Continent'' ''countries__name'' = Inl AttributeError"
    by (simp add: get_related_query_name_reverse_names)
  then show ?thesis
    by (simp add: ex_defs)
qed

text \<open>
  C10. Language validation treats the empty tag as an absent one: whatever the
  supported languages and the active language are, validating the empty text gives
  what validating no tag gives, which is the active language when that is supported
  and a \<open>ValidationError\<close> otherwise; the empty text itself is never what is validated.
\<close>

theorem get_validated_language_empty_tag:
  "get_validated_language env (Some '''') = get_validated_language env None \<and>
   get_validated_language env (Some '''') =
     (case get_language env of
        None \<Rightarrow> Inl ValidationError
      | Some l \<Rightarrow> if l \<in> set (LANGUAGES env) then Inr l else Inl ValidationError)"
  by (simp add: get_validated_language_def validate_language_def split: option.splits)






text \<open>
  C4. Persisting twice. Let the language be valid, the model be translatable, the store
  resolve the generic relation of the model, and no two rows of the table have the
  same \<open>(content_type, object_id, field, language)\<close>. Take two calls of
  \<open>update_translations\<close> in sequence, on two states of the same object (same model, same
  id). In the table they leave, no two rows have the same key. The second call either
  returns or raises \<open>IntegrityError\<close>. When it returns, the rows of the object in that
  language are exactly one row for each translatable field whose value in the second
  state is truthy, with that value as its text, so nothing written by the first call
  is left; a field that holds the non-empty text \<open>s\<close> has the row with the text \<open>s\<close>.
  When it raises, the table is as the first call left it. Both calls return when the
  translatable fields have distinct names.
\<close>

theorem update_translations_twice_supersedes:
  assumes "get_validated_language env lang = Inr l"
    and "get_translatable_fields env model = Inr translatable_fields"
    and "generic_relation env model"
    and "distinct (map unique_together table)"
    and "inst_model entity1 = model" and "inst_model entity2 = model"
    and "inst_id entity2 = inst_id entity1"
    and "update_translations env table (PObj entity1) lang = (r1, table1)"
    and "update_translations env table1 (PObj entity2) lang = (r2, table2)"
  shows "distinct (map unique_together table2)
       \<and> (r2 = None \<or> r2 = Some IntegrityError)
       \<and> (r2 = None \<longrightarrow>
            filter (owned model (inst_id entity1) l) table2
              = map (\<lambda>field.
                       \<lparr>tr_content_type = model, tr_object_id = inst_id entity1,
                        tr_field = field_name field, tr_language = l,
                        tr_text = text_of env (getattr entity2 (field_name field))\<rparr>)
                    (filter (\<lambda>field. truthy (getattr entity2 (field_name field))) translatable_fields))
       \<and> (r2 = None \<longrightarrow>
            (\<forall>field \<in> set translatable_fields. \<forall>s.
               getattr entity2 (field_name field) = PStr s \<longrightarrow> s \<noteq> [] \<longrightarrow>
               \<lparr>tr_content_type = model, tr_object_id = inst_id entity1,
                tr_field = field_name field, tr_language = l, tr_text = s\<rparr> \<in> set table2))
       \<and> (r2 = Some IntegrityError \<longrightarrow> table2 = table1)
       \<and> (distinct (map field_name translatable_fields) \<longrightarrow> r1 = None \<and> r2 = None)"
proof -
  let ?own = "owned model (inst_id entity1) l"
  let ?new1 = "add_translations env l translatable_fields entity1"
  let ?new2 = "add_translations env l translatable_fields entity2"
  note o1 = update_translations_outcome [of env lang l entity1 translatable_fields table r1 table1]
  note o2 = update_translations_outcome [of env lang l entity2 translatable_fields table1 r2 table2]
  from o1 assms have first:
    "(r1 = None \<and> table1 = filter (\<lambda>t. \<not> ?own t) table @ ?new1 \<and> distinct (map unique_together ?new1))
     \<or> (r1 = Some IntegrityError \<and> table1 = table \<and> \<not> distinct (map unique_together ?new1))"
    by simp
  from o2 assms have second:
    "(r2 = None \<and> table2 = filter (\<lambda>t. \<not> ?own t) table1 @ ?new2 \<and> distinct (map unique_together ?new2))
     \<or> (r2 = Some IntegrityError \<and> table2 = table1 \<and> \<not> distinct (map unique_together ?new2))"
    by simp
  have d1: "distinct (map unique_together table1)"
    using first assms(4) distinct_kept_staged [of table env l translatable_fields entity1] assms(5)
    by auto
  have d2: "distinct (map unique_together table2)"
    using second d1 distinct_kept_staged [of table1 env l translatable_fields entity2] assms(6,7)
    by auto
  have rows: "filter ?own table2 = ?new2" if "r2 = None"
  proof -
    from second that have "table2 = filter (\<lambda>t. \<not> ?own t) table1 @ ?new2" by auto
    then have "filter ?own table2 = filter ?own ?new2"
      by (simp add: filter_owned_result)
    also have "\<dots> = ?new2"
      using filter_owned_add_translations [of entity2 l env translatable_fields] assms(6,7) by simp
    finally show ?thesis .
  qed
  have explicit: "?new2 = map (\<lambda>field.
                       \<lparr>tr_content_type = model, tr_object_id = inst_id entity1,
                        tr_field = field_name field, tr_language = l,
                        tr_text = text_of env (getattr entity2 (field_name field))\<rparr>)
                    (filter (\<lambda>field. truthy (getattr entity2 (field_name field))) translatable_fields)"
    using assms(6,7) by (simp add: add_translations_def)
  have texts: "\<lparr>tr_content_type = model, tr_object_id = inst_id entity1,
                tr_field = field_name field, tr_language = l, tr_text = s\<rparr> \<in> set table2"
    if "r2 = None" "field \<in> set translatable_fields"
      "getattr entity2 (field_name field) = PStr s" "s \<noteq> []" for field s
  proof -
    from add_translations_text [OF that(2,3,4), of l env] assms(6,7)
    have "\<lparr>tr_content_type = model, tr_object_id = inst_id entity1,
                tr_field = field_name field, tr_language = l, tr_text = s\<rparr> \<in> set ?new2"
      by simp
    then have "\<lparr>tr_content_type = model, tr_object_id = inst_id entity1,
                tr_field = field_name field, tr_language = l, tr_text = s\<rparr>
                 \<in> set (filter ?own table2)"
      using rows [OF that(1)] by simp
    then show ?thesis by simp
  qed
  have ok: "r1 = None \<and> r2 = None" if "distinct (map field_name translatable_fields)"
    using first second add_translations_distinct [OF that, of env l entity1]
      add_translations_distinct [OF that, of env l entity2] by auto
  from d2 second rows explicit texts ok show ?thesis
    by (intro conjI impI ballI allI) auto
qed

theorem update_translations_twice_supersedes_witness:
  "update_translations example_env [europa_de] (PObj europe) (Some ''de'')
     = (None,
        [\<lparr>tr_content_type = ''Continent'', tr_object_id = ''1'', tr_field = ''name'',
          tr_language = ''de'', tr_text = ''Europe''\<rparr>,
         \<lparr>tr_content_type = ''Continent'', tr_object_id = ''1'', tr_field = ''denonym'',
          tr_language = ''de'', tr_text = ''European''\<rparr>])
   \<and> update_translations example_env
        [\<lparr>tr_content_type = ''Continent'', tr_object_id = ''1'', tr_field = ''name'',
          tr_language = ''de'', tr_text = ''Europe''\<rparr>,
         \<lparr>tr_content_type = ''Continent'', tr_object_id = ''1'', tr_field = ''denonym'',
          tr_language = ''de'', tr_text = ''European''\<rparr>]
        (PObj europa) (Some ''de'')
     = (None,
        [\<lparr>tr_content_type = ''Continent'', tr_object_id = ''1'', tr_field = ''name'',
          tr_language = ''de'', tr_text = ''Europa''\<rparr>,
         \<lparr>tr_content_type = ''Continent'', tr_object_id = ''1'', tr_field = ''denonym'',
          tr_language = ''de'', tr_text = ''European''\<rparr>])
   \<and> distinct (map unique_together
        [\<lparr>tr_content_type = ''Continent'', tr_object_id = ''1'', tr_field = ''name'',
          tr_language = ''de'', tr_text = ''Europa''\<rparr>,
         \<lparr>tr_content_type = ''Continent'', tr_object_id = ''1'', tr_field = ''denonym'',
          tr_language = ''de'', tr_text = ''European''\<rparr>])
   \<and> filter (owned ''Continent'' (inst_id europe) ''de'')
        [\<lparr>tr_content_type = ''Continent'', tr_object_id = ''1'', tr_field = ''name'',
          tr_language = ''de'', tr_text = ''Europa''\<rparr>,
         \<lparr>tr_content_type = ''Continent'', tr_object_id = ''1'', tr_field = ''denonym'',
          tr_language = ''de'', tr_text = ''European''\<rparr>]
       = [\<lparr>tr_content_type = ''Continent'', tr_object_id = ''1'', tr_field = ''name'',
          tr_language = ''de'', tr_text = ''Europa''\<rparr>,
         \<lparr>tr_content_type = ''Continent'', tr_object_id = ''1'', tr_field = ''denonym'',
          tr_language = ''de'', tr_text = ''European''\<rparr>]"
proof -
  have 1: "distinct (map unique_together [europa_de])"
    by simp
  have 2: "inst_model europe = ''Continent''" "inst_model europa = ''Continent''"
    "inst_id europa = inst_id europe"
    by (simp_all add: europe_def europa_def)
  note th = update_translations_twice_supersedes [OF example_language_de
      example_Continent_translatable_fields example_generic_relation 1 2
      example_persist_europe example_persist_europa]
  from th have d: "distinct (map unique_together
        [\<lparr>tr_content_type = ''Continent'', tr_object_id = ''1'', tr_field = ''name'',
          tr_language = ''de'', tr_text = ''Europa''\<rparr>,
         \<lparr>tr_content_type = ''Continent'', tr_object_id = ''1'', tr_field = ''denonym'',
          tr_language = ''de'', tr_text = ''European''\<rparr>])"
    by (rule conjunct1)
  from th have "filter (owned ''Continent'' (inst_id europe) ''de'')
        [\<lparr>tr_content_type = ''Continent'', tr_object_id = ''1'', tr_field = ''name'',
          tr_language = ''de'', tr_text = ''Europa''\<rparr>,
         \<lparr>tr_content_type = ''Continent'', tr_object_id = ''1'', tr_field = ''denonym'',
          tr_language = ''de'', tr_text = ''European''\<rparr>]
     = map (\<lambda>field.
          \<lparr>tr_content_type = ''Continent'', tr_object_id = inst_id europe,
           tr_field = field_name field, tr_language = ''de'',
           tr_text = text_of example_env (getattr europa (field_name field))\<rparr>)
       (filter (\<lambda>field. truthy (getattr europa (field_name field)))
          [text_field ''name'', text_field ''denonym''])"
    by blast
  then have f: "filter (owned ''Continent'' (inst_id europe) ''de'')
        [\<lparr>tr_content_type = ''Continent'', tr_object_id = ''1'', tr_field = ''name'',
          tr_language = ''de'', tr_text = ''Europa''\<rparr>,
         \<lparr>tr_content_type = ''Continent'', tr_object_id = ''1'', tr_field = ''denonym'',
          tr_language = ''de'', tr_text = ''European''\<rparr>]
       = [\<lparr>tr_content_type = ''Continent'', tr_object_id = ''1'', tr_field = ''name'',
          tr_language = ''de'', tr_text = ''Europa''\<rparr>,
         \<lparr>tr_content_type = ''Continent'', tr_object_id = ''1'', tr_field = ''denonym'',
          tr_language = ''de'', tr_text = ''European''\<rparr>]"
    by (simp only: example_staged_europa)
  from example_persist_europe example_persist_europa d f show ?thesis
    by (intro conjI)
qed

theorem update_translations_repeated_field_counterexample:
  "get_translatable_fields repeated_env ''Continent'' = Inr [text_field ''name'', text_field ''name'']
   \<and> get_validated_language repeated_env (Some ''de'') = Inr ''de''
   \<and> update_translations repeated_env [europa_de] (PObj europe) (Some ''de'')
       = (Some IntegrityError, [europa_de])
   \<and> (case update_translations repeated_env [europa_de] (PObj europe) (Some ''de'') of
        (r1, table1) \<Rightarrow> update_translations repeated_env table1 (PObj europe) (Some ''de''))
       = (Some IntegrityError, [europa_de])
   \<and> getattr europe ''name'' = PStr ''Europe''
   \<and> tr_text europa_de = ''Europa''"
proof -
  have 1: "get_translatable_fields repeated_env ''Continent''
             = Inr [text_field ''name'', text_field ''name'']"
    by code_simp
  have 2: "get_validated_language repeated_env (Some ''de'') = Inr ''de''"
    by code_simp
  have 3: "getattr europe ''name'' = PStr ''Europe''" "tr_text europa_de = ''Europa''"
    by code_simp+
  from 1 2 3 show ?thesis
    by (simp add: example_persist_repeated)
qed




end
